theory Spec2Isabelle
  imports Complex_Main
begin

section \<open>Fixed-point CIFAR-10 training driver (examples/cifar10/main.py)\<close>

text \<open>
  A shallow embedding of the training driver. Python floats are modelled as
  \<^typ>\<open>real\<close> (no rounding, no NaN), Python ints as \<^typ>\<open>int\<close>, raised
  exceptions as values of \<open>error\<close>.
\<close>

subsection \<open>Errors\<close>

datatype error =
    ZeroDivisionError
  | ValueError
  | KeyError string
  | AssertionError
  | ArgumentError string
  | ConfigError
  | IndexError

subsection \<open>AverageMeter\<close>

text \<open>
  \<^verbatim>\<open>
  class AverageMeter(object):
      def __init__(self): self.reset()
      def reset(self):
          self.val = 0; self.avg = 0; self.sum = 0; self.count = 0
      def update(self, val, n=1):
          self.val = val
          self.sum += val * n
          self.count += n
          self.avg = self.sum / self.count
  \<close>
  The division is true division (the callers pass float values); a zero count makes it
  raise \<open>ZeroDivisionError\<close>.
\<close>

record AverageMeter =
  val :: real
  avg :: real
  sum_m :: real
  count :: int

definition reset :: "AverageMeter \<Rightarrow> AverageMeter" where
  "reset m = m\<lparr>val := 0, avg := 0, sum_m := 0, count := 0\<rparr>"

definition AverageMeter_init :: AverageMeter where
  "AverageMeter_init = reset \<lparr>val = 0, avg = 0, sum_m = 0, count = 0\<rparr>"

definition update :: "real \<Rightarrow> int \<Rightarrow> AverageMeter \<Rightarrow> error + AverageMeter" where
  "update v n m =
     (let m1 = m\<lparr>val := v\<rparr>;
          m2 = m1\<lparr>sum_m := sum_m m1 + v * of_int n\<rparr>;
          m3 = m2\<lparr>count := count m2 + n\<rparr>
      in if count m3 = 0 then Inl ZeroDivisionError
         else Inr (m3\<lparr>avg := sum_m m3 / of_int (count m3)\<rparr>))"

text \<open>A sequence of \<open>update(val, n)\<close> calls on one meter; the first exception ends it.\<close>

fun updates :: "(real \<times> int) list \<Rightarrow> AverageMeter \<Rightarrow> error + AverageMeter" where
  "updates [] m = Inr m"
| "updates ((v, n) # us) m =
     (case update v n m of Inl e \<Rightarrow> Inl e | Inr m' \<Rightarrow> updates us m')"

subsection \<open>Learning-rate schedule\<close>

text \<open>
  \<^verbatim>\<open>
  def adjust_learning_rate(optimizer, epoch):
      lr = args.lr * (0.5 ** (epoch // 10))
      for param_group in optimizer.param_groups:
          param_group["lr"] = lr
  \<close>
  A parameter group is a dict; \<open>args.lr\<close> is the first argument. Python's \<open>//\<close> on ints
  is floor division, as \<open>div\<close> on \<^typ>\<open>int\<close>; \<open>**\<close> with a negative int exponent is
  the reciprocal power, as \<open>powi\<close>.
\<close>

type_synonym param_group = "string \<rightharpoonup> real"

definition adjust_learning_rate :: "real \<Rightarrow> param_group list \<Rightarrow> int \<Rightarrow> param_group list" where
  "adjust_learning_rate args_lr param_groups epoch =
     (let lr = args_lr * ((1 / 2) powi (epoch div 10))
      in map (\<lambda>param_group. param_group(''lr'' \<mapsto> lr)) param_groups)"


subsection \<open>Command line\<close>

text \<open>
  Values held by the parsed namespace for an option declared without \<open>type=\<close>: the
  default is the int written in the source, a value taken from the command line stays a
  string. Python never considers a \<open>str\<close> equal to an \<open>int\<close>.
\<close>

datatype pyval = PyInt int | PyStr string

record args =
  save_dir :: string
  gpu :: string
  epoch :: int
  start_epoch :: int
  batch_size :: int
  test_batch_size :: int
  lr :: real
  momentum :: real
  weight_decay :: real
  print_freq :: int
  resume :: string
  prefix :: string
  float_bn :: bool
  fix_grad :: bool
  range_method :: pyval
  grad_range_method :: pyval
  evaluate :: bool
  pretrained :: string
  bitwidth_data :: int
  bitwidth_grad :: int

text \<open>
  One recognised option occurrence of the command line, with its raw string value
  (none for the \<open>store_true\<close> flags). Splitting the command line into occurrences
  (aliases, abbreviations, \<open>--opt=value\<close>) is argparse's and is not modelled.
\<close>

datatype opt =
    Opt_save_dir string
  | Opt_gpu string
  | Opt_epoch string
  | Opt_start_epoch string
  | Opt_batch_size string
  | Opt_test_batch_size string
  | Opt_lr string
  | Opt_momentum string
  | Opt_weight_decay string
  | Opt_print_freq string
  | Opt_resume string
  | Opt_prefix string
  | Opt_float_bn
  | Opt_fix_grad
  | Opt_range_method string
  | Opt_grad_range_method string
  | Opt_evaluate
  | Opt_pretrained string
  | Opt_bitwidth_data string
  | Opt_bitwidth_grad string

text \<open>
  Python's \<open>int(s)\<close> and \<open>float(s)\<close> on a string, \<open>None\<close> where they raise
  \<open>ValueError\<close>. They are the language's, so they are parameters of the model.
\<close>

record builtins =
  py_int :: "string \<Rightarrow> int option"
  py_float :: "string \<Rightarrow> real option"

text \<open>The \<open>default=\<close> of every option; \<open>--save-dir\<close> is required and has none.\<close>

definition defaults :: args where
  "defaults =
     \<lparr>save_dir = [], gpu = ''0'', epoch = 100, start_epoch = 0, batch_size = 128,
      test_batch_size = 32, lr = 5 / 100, momentum = 9 / 10, weight_decay = 5 / 10000,
      print_freq = 40, resume = [], prefix = [], float_bn = False, fix_grad = False,
      range_method = PyInt 0, grad_range_method = PyInt 0, evaluate = False,
      pretrained = [], bitwidth_data = 8, bitwidth_grad = 16\<rparr>"

text \<open>\<open>choices=[0, 1, 3]\<close> of \<open>--range-method\<close> and \<open>--grad-range-method\<close>.\<close>

definition choices :: "pyval list" where
  "choices = [PyInt 0, PyInt 1, PyInt 3]"

definition int_arg :: "builtins \<Rightarrow> string \<Rightarrow> string \<Rightarrow> error + int" where
  "int_arg bi name s =
     (case py_int bi s of None \<Rightarrow> Inl (ArgumentError name) | Some n \<Rightarrow> Inr n)"

definition float_arg :: "builtins \<Rightarrow> string \<Rightarrow> string \<Rightarrow> error + real" where
  "float_arg bi name s =
     (case py_float bi s of None \<Rightarrow> Inl (ArgumentError name) | Some x \<Rightarrow> Inr x)"

text \<open>
  The value of a \<open>choices\<close> option: no \<open>type=\<close> is declared, so the value is the
  string itself, and argparse rejects it unless \<open>value in choices\<close>.
\<close>

definition choice_arg :: "string \<Rightarrow> string \<Rightarrow> error + pyval" where
  "choice_arg name s =
     (if PyStr s \<in> set choices then Inr (PyStr s) else Inl (ArgumentError name))"

text \<open>
  The action of one occurrence on the namespace. The flag beside the namespace records
  that the required \<open>--save-dir\<close> was seen. A failed conversion or choice check is
  argparse's usage error (exit status 2).
\<close>

fun parse_opt :: "builtins \<Rightarrow> opt \<Rightarrow> args \<times> bool \<Rightarrow> error + args \<times> bool" where
  "parse_opt bi (Opt_save_dir s) (a, seen) = Inr (a\<lparr>save_dir := s\<rparr>, True)"
| "parse_opt bi (Opt_gpu s) (a, seen) = Inr (a\<lparr>gpu := s\<rparr>, seen)"
| "parse_opt bi (Opt_epoch s) (a, seen) =
     (case int_arg bi ''--epoch'' s of Inl e \<Rightarrow> Inl e
      | Inr n \<Rightarrow> Inr (a\<lparr>epoch := n\<rparr>, seen))"
| "parse_opt bi (Opt_start_epoch s) (a, seen) =
     (case int_arg bi ''--start-epoch'' s of Inl e \<Rightarrow> Inl e
      | Inr n \<Rightarrow> Inr (a\<lparr>start_epoch := n\<rparr>, seen))"
| "parse_opt bi (Opt_batch_size s) (a, seen) =
     (case int_arg bi ''--batch-size'' s of Inl e \<Rightarrow> Inl e
      | Inr n \<Rightarrow> Inr (a\<lparr>batch_size := n\<rparr>, seen))"
| "parse_opt bi (Opt_test_batch_size s) (a, seen) =
     (case int_arg bi ''--test-batch-size'' s of Inl e \<Rightarrow> Inl e
      | Inr n \<Rightarrow> Inr (a\<lparr>test_batch_size := n\<rparr>, seen))"
| "parse_opt bi (Opt_lr s) (a, seen) =
     (case float_arg bi ''--lr'' s of Inl e \<Rightarrow> Inl e
      | Inr x \<Rightarrow> Inr (a\<lparr>lr := x\<rparr>, seen))"
| "parse_opt bi (Opt_momentum s) (a, seen) =
     (case float_arg bi ''--momentum'' s of Inl e \<Rightarrow> Inl e
      | Inr x \<Rightarrow> Inr (a\<lparr>momentum := x\<rparr>, seen))"
| "parse_opt bi (Opt_weight_decay s) (a, seen) =
     (case float_arg bi ''--weight-decay'' s of Inl e \<Rightarrow> Inl e
      | Inr x \<Rightarrow> Inr (a\<lparr>weight_decay := x\<rparr>, seen))"
| "parse_opt bi (Opt_print_freq s) (a, seen) =
     (case int_arg bi ''--print-freq'' s of Inl e \<Rightarrow> Inl e
      | Inr n \<Rightarrow> Inr (a\<lparr>print_freq := n\<rparr>, seen))"
| "parse_opt bi (Opt_resume s) (a, seen) = Inr (a\<lparr>resume := s\<rparr>, seen)"
| "parse_opt bi (Opt_prefix s) (a, seen) = Inr (a\<lparr>prefix := s\<rparr>, seen)"
| "parse_opt bi Opt_float_bn (a, seen) = Inr (a\<lparr>float_bn := True\<rparr>, seen)"
| "parse_opt bi Opt_fix_grad (a, seen) = Inr (a\<lparr>fix_grad := True\<rparr>, seen)"
| "parse_opt bi (Opt_range_method s) (a, seen) =
     (case choice_arg ''--range-method'' s of Inl e \<Rightarrow> Inl e
      | Inr v \<Rightarrow> Inr (a\<lparr>range_method := v\<rparr>, seen))"
| "parse_opt bi (Opt_grad_range_method s) (a, seen) =
     (case choice_arg ''--grad-range-method'' s of Inl e \<Rightarrow> Inl e
      | Inr v \<Rightarrow> Inr (a\<lparr>grad_range_method := v\<rparr>, seen))"
| "parse_opt bi Opt_evaluate (a, seen) = Inr (a\<lparr>evaluate := True\<rparr>, seen)"
| "parse_opt bi (Opt_pretrained s) (a, seen) = Inr (a\<lparr>pretrained := s\<rparr>, seen)"
| "parse_opt bi (Opt_bitwidth_data s) (a, seen) =
     (case int_arg bi ''--bitwidth-data'' s of Inl e \<Rightarrow> Inl e
      | Inr n \<Rightarrow> Inr (a\<lparr>bitwidth_data := n\<rparr>, seen))"
| "parse_opt bi (Opt_bitwidth_grad s) (a, seen) =
     (case int_arg bi ''--bitwidth-grad'' s of Inl e \<Rightarrow> Inl e
      | Inr n \<Rightarrow> Inr (a\<lparr>bitwidth_grad := n\<rparr>, seen))"

text \<open>Occurrences are consumed left to right; the first error ends the parse.\<close>

fun parse_opts :: "builtins \<Rightarrow> opt list \<Rightarrow> args \<times> bool \<Rightarrow> error + args \<times> bool" where
  "parse_opts bi [] st = Inr st"
| "parse_opts bi (x # xs) st =
     (case parse_opt bi x st of Inl e \<Rightarrow> Inl e | Inr st' \<Rightarrow> parse_opts bi xs st')"

definition parse_args :: "builtins \<Rightarrow> opt list \<Rightarrow> error + args" where
  "parse_args bi argv =
     (case parse_opts bi argv (defaults, False) of
        Inl e \<Rightarrow> Inl e
      | Inr (a, seen) \<Rightarrow> if seen then Inr a else Inl (ArgumentError ''--save-dir''))"


subsection \<open>The fixed-point layer used by the driver\<close>

text \<open>
  The driver imports the package \<open>nics_fix_pt\<close> and \<open>FixNet\<close> from \<open>net.py\<close>;
  neither is among the source files. What the driver needs of them is modelled here from
  the specification, each definition marked as such.
\<close>

text \<open>
  Modelled from the spec: the modes of a policy (section 4.3), missing with
  \<open>nics_fix_pt\<close>; the driver names them \<open>nfp.FIX_NONE\<close>, \<open>nfp.FIX_AUTO\<close> and
  \<open>nfp.FIX_FIXED\<close>.
\<close>

datatype fix_method = FIX_NONE | FIX_AUTO | FIX_FIXED

text \<open>
  Modelled from the spec: the range-estimation methods (section 4.1), missing with
  \<open>nics_fix_pt\<close>; the driver's help text names them \<open>RANGE_MAX\<close>, \<open>RANGE_3SIGMA\<close>
  and \<open>RANGE_SWEEP\<close>.
\<close>

datatype range_kind = RANGE_MAX | RANGE_3SIGMA | RANGE_SWEEP

text \<open>
  Modelled from the spec: the policy of one tracked tensor (section 3, FixPolicy; the
  class is missing with \<open>nics_fix_pt\<close>): its
  role, its mode, its bitwidth and its range-estimation method. The cached range value is
  kept apart (\<open>ranges\<close> below), since it changes on every use under \<open>FIX_AUTO\<close>.
\<close>

record fix_policy =
  p_role :: string
  p_mode :: fix_method
  p_bitwidth :: int
  p_range :: range_kind

text \<open>
  Modelled from the spec: a FixModule (section 3; missing with \<open>nics_fix_pt.nn_fix\<close>)
  has a module type and one policy per role; the role set is fixed at construction.
\<close>

record fix_module =
  m_type :: string
  m_policies :: "fix_policy list"

text \<open>
  Modelled from the spec: the default policy configuration received at construction
  (section 6; kept by the missing \<open>FixNet\<close>): bitwidths and range methods for data and for gradients, whether gradients
  are quantized at all, whether normalization layers are quantized.
\<close>

record fix_config =
  c_fix_bn :: bool
  c_fix_grad :: bool
  c_range_method :: range_kind
  c_grad_range_method :: range_kind
  c_bitwidth_data :: int
  c_bitwidth_grad :: int

type_synonym tensor = "real list"

type_synonym state_dict = "(string \<times> tensor) list"

text \<open>
  A dict from module type to a dict from role to mode, as the \<open>method_by_type\<close>
  argument written in the driver; a dict is an association list read with \<open>map_of\<close>.
\<close>

type_synonym method_by_type = "(string \<times> (string \<times> fix_method) list) list"

text \<open>
  Modelled from the spec: a FixNet (section 3; the class is in the missing \<open>net.py\<close>)
  owns the tree of FixModules, the
  configuration it was constructed with, the trainable tensor values (what a checkpoint
  persists, section 6) and the cached ranges of its policies. \<open>training\<close> is the flag
  that \<open>model.train()\<close> and \<open>model.eval()\<close> set.
\<close>

record fixnet =
  cfg :: fix_config
  modules :: "fix_module list"
  tensors :: state_dict
  ranges :: "real list"
  training :: bool

text \<open>
  Modelled from the spec: the network topology (the missing \<open>net.py\<close>) is an external
  collaborator (section 1). It supplies the layers (module type, and for each role the mode a policy is created
  with) and the initial tensor values and ranges.
\<close>

record net_spec =
  layers :: method_by_type
  init_tensors :: state_dict
  init_ranges :: "real list"

text \<open>
  Modelled from the spec: the reading of a range-method argument by the missing
  \<open>FixNet\<close> constructor. The range methods are 0 (MAX), 1 (THREE_SIGMA) and 3 (SWEEP); a
  malformed selection is a configuration error (section 7).
\<close>

fun range_kind_of :: "pyval \<Rightarrow> range_kind option" where
  "range_kind_of (PyInt n) =
     (if n = 0 then Some RANGE_MAX else if n = 1 then Some RANGE_3SIGMA
      else if n = 3 then Some RANGE_SWEEP else None)"
| "range_kind_of (PyStr s) = None"

text \<open>
  Modelled from the spec: construction of the FixNet (\<open>FixNet.__init__\<close> of the
  missing \<open>net.py\<close>), which the driver calls as
  \<open>FixNet(fix_bn=..., fix_grad=..., range_method=..., grad_range_method=...,
  bitwidth_data=..., bitwidth_grad=...)\<close>. A bitwidth \<open>\<le> 0\<close> is rejected as a
  configuration error at construction time (section 4.2), as is a malformed range method
  (section 7). Every policy gets the data bitwidth and data range method. When
  normalization layers are exempt (\<open>fix_bn\<close> false) the \<open>BatchNorm2d_fix\<close> layers
  track no policy.
\<close>

definition FixNet ::
  "net_spec \<Rightarrow> bool \<Rightarrow> bool \<Rightarrow> pyval \<Rightarrow> pyval \<Rightarrow> int \<Rightarrow> int \<Rightarrow> error + fixnet" where
  "FixNet ns fix_bn' fix_grad' range_method' grad_range_method' bitwidth_data' bitwidth_grad' =
     (if bitwidth_data' \<le> 0 \<or> bitwidth_grad' \<le> 0 then Inl ConfigError
      else case range_kind_of range_method' of
        None \<Rightarrow> Inl ConfigError
      | Some rm \<Rightarrow>
      (case range_kind_of grad_range_method' of
        None \<Rightarrow> Inl ConfigError
      | Some grm \<Rightarrow>
          Inr \<lparr>cfg = \<lparr>c_fix_bn = fix_bn', c_fix_grad = fix_grad', c_range_method = rm,
                      c_grad_range_method = grm, c_bitwidth_data = bitwidth_data',
                      c_bitwidth_grad = bitwidth_grad'\<rparr>,
               modules =
                 map (\<lambda>(ty, roles).
                        \<lparr>m_type = ty,
                         m_policies =
                           map (\<lambda>(r, md). \<lparr>p_role = r, p_mode = md,
                                            p_bitwidth = bitwidth_data', p_range = rm\<rparr>) roles\<rparr>)
                     (filter (\<lambda>(ty, roles). fix_bn' \<or> ty \<noteq> ''BatchNorm2d_fix'') (layers ns)),
               tensors = init_tensors ns,
               ranges = init_ranges ns,
               training = True\<rparr>))"

text \<open>
  Modelled from the spec: \<open>set_fix_method(default_mode, overrides)\<close> (section 4.5; the
  method is missing with \<open>nics_fix_pt.nn_fix\<close>): the
  overrides map (module type, role) to a mode and are applied on top of the default for
  every policy in the tree; unmatched policies take the default. Only modes change.
\<close>

definition mode_for :: "fix_method \<Rightarrow> method_by_type \<Rightarrow> string \<Rightarrow> string \<Rightarrow> fix_method" where
  "mode_for method by_type ty r =
     (case map_of by_type ty of
        None \<Rightarrow> method
      | Some by_role \<Rightarrow> (case map_of by_role r of None \<Rightarrow> method | Some md \<Rightarrow> md))"

definition set_fix_method :: "fix_method \<Rightarrow> method_by_type \<Rightarrow> fixnet \<Rightarrow> fixnet" where
  "set_fix_method method by_type net =
     net\<lparr>modules :=
           map (\<lambda>m. m\<lparr>m_policies :=
                        map (\<lambda>p. p\<lparr>p_mode := mode_for method by_type (m_type m) (p_role p)\<rparr>)
                            (m_policies m)\<rparr>)
               (modules net)\<rparr>"

text \<open>
  Modelled from the spec: the model's \<open>state_dict\<close> and \<open>load_state_dict\<close> methods,
  missing with the model's class. What is persisted and restored is the trainable tensor
  values (section 6); \<open>load_state_dict\<close> restores them and \<open>state_dict\<close> reads them.
  The policy configuration is not part of it.
\<close>

definition state_dict :: "fixnet \<Rightarrow> state_dict" where
  "state_dict net = tensors net"

definition load_state_dict :: "state_dict \<Rightarrow> fixnet \<Rightarrow> fixnet" where
  "load_state_dict sd net = net\<lparr>tensors := sd\<rparr>"


text \<open>
  Modelled from the spec: a range descriptor (section 3) and the quantizer (section 4.2),
  both missing with \<open>nics_fix_pt\<close>. The scale is \<open>value / (2^(bitwidth-1) - 1)\<close>; a value is quantized to
  \<open>round(x / scale) * scale\<close> clamped to \<open>[-(2^(b-1)-1), 2^(b-1)-1] * scale\<close>.
  Tensor values are real numbers (section 3); \<open>round\<close> is rounding to the nearest
  integer. A zero divisor raises.
\<close>

record range_descriptor =
  rd_method :: range_kind
  rd_value :: real

definition levels :: "int \<Rightarrow> real" where
  "levels b = 2 powi (b - 1) - 1"

definition scale_of :: "int \<Rightarrow> range_descriptor \<Rightarrow> error + real" where
  "scale_of b rd =
     (if levels b = 0 then Inl ZeroDivisionError else Inr (rd_value rd / levels b))"

definition quantize_value :: "int \<Rightarrow> real \<Rightarrow> real \<Rightarrow> real" where
  "quantize_value b scale x =
     (let y = of_int (round (x / scale)) * scale
      in max (- levels b * scale) (min (levels b * scale) y))"

definition quantize :: "int \<Rightarrow> range_descriptor \<Rightarrow> tensor \<Rightarrow> error + tensor" where
  "quantize b rd x =
     (case scale_of b rd of
        Inl e \<Rightarrow> Inl e
      | Inr scale \<Rightarrow>
          if scale = 0 then Inl ZeroDivisionError else Inr (map (quantize_value b scale) x))"

text \<open>
  Modelled from the spec: gradient quantization (section 4.4), missing with
  \<open>nics_fix_pt\<close>. If it is enabled globally,
  the gradient flowing backward through a module is passed through a quantizer with the
  gradient bitwidth and gradient range method; otherwise it is handed on as it is. The
  gradient's representation \<open>'g\<close> and the quantizer on it are parameters.
\<close>

definition quantize_gradient ::
  "(int \<Rightarrow> range_kind \<Rightarrow> 'g \<Rightarrow> error + 'g) \<Rightarrow> fixnet \<Rightarrow> 'g \<Rightarrow> error + 'g" where
  "quantize_gradient q net g =
     (if c_fix_grad (cfg net)
      then q (c_bitwidth_grad (cfg net)) (c_grad_range_method (cfg net)) g
      else Inr g)"

text \<open>
  Modelled from the spec: the backward pass (section 2), which the driver starts with
  \<open>loss.backward()\<close> and whose code is missing. The gradient flows backward
  through the modules; each module's own derivative is automatic differentiation's (a
  function per module, a parameter), and the hook \<open>h\<close> is applied to the gradient
  leaving each module. The result lists the gradient after every module. A
  full-precision run is the one whose hook hands the gradient on unchanged.
\<close>

fun backward :: "('g \<Rightarrow> error + 'g) \<Rightarrow> ('g \<Rightarrow> 'g) list \<Rightarrow> 'g \<Rightarrow> error + 'g list" where
  "backward h [] g = Inr []"
| "backward h (f # fs) g =
     (case h (f g) of
        Inl e \<Rightarrow> Inl e
      | Inr g' \<Rightarrow> (case backward h fs g' of Inl e \<Rightarrow> Inl e | Inr gs \<Rightarrow> Inr (g' # gs)))"

definition backward_full_precision :: "('g \<Rightarrow> 'g) list \<Rightarrow> 'g \<Rightarrow> error + 'g list" where
  "backward_full_precision fs g = backward Inr fs g"

subsection \<open>The driver's state and its environment\<close>

text \<open>
  A checkpoint is the dict \<open>{"epoch": ..., "state_dict": ..., "best_prec1": ...}\<close>; a
  key that a loaded file lacks is \<open>None\<close> and reading it raises \<open>KeyError\<close>.
\<close>

record checkpoint =
  ck_epoch :: "int option"
  ck_state_dict :: "state_dict option"
  ck_best_prec1 :: "real option"

text \<open>
  The calls the driver makes that act on the device, the file system, the model's mode
  or a batch, in the order made. A batch event carries the policies the model has while
  the batch is processed. Of the print statements only the summary line of \<open>validate\<close>
  is recorded (precision, best precision); the others leave no trace.
\<close>

datatype event =
    SetDevice int
  | MakeDirs string
  | TorchLoad string
  | SetFixMethod fix_method method_by_type
  | ModelTrain
  | ModelEval
  | TrainBatch int nat "fix_module list"
  | EvalBatch nat "fix_module list"
  | PrintPrec real real
  | TorchSave string checkpoint

text \<open>
  The mutable state of a run: the global \<open>args\<close> (its \<open>start_epoch\<close> is assigned on
  resume), the model, the optimizer's parameter groups, the global \<open>best_prec1\<close>, and
  the trace of calls made so far.
\<close>

record world =
  wargs :: args
  model :: fixnet
  optimizer :: "param_group list"
  best_prec1 :: real
  trace :: "event list"

text \<open>A call either raises, leaving the trace so far, or returns a value and a state.\<close>

datatype 'a outcome = Raised error "event list" | Returned 'a world

fun trace_of :: "'a outcome \<Rightarrow> event list" where
  "trace_of (Raised e t) = t"
| "trace_of (Returned x w) = trace w"

text \<open>
  What one batch gives back to the driver. For a training batch: the tensor values and
  cached ranges after forward, backward and \<open>optimizer.step()\<close>, the loss, the
  precision and \<open>input.size(0)\<close>. An evaluation batch runs under \<open>no_grad\<close> without an
  optimizer step and gives only the last three.
\<close>

record eval_result =
  loss :: real
  prec1 :: real
  size0 :: int

record batch_result = eval_result +
  new_tensors :: state_dict
  new_ranges :: "real list"

text \<open>
  The environment of a run: Python's conversions, the file system as seen at startup,
  \<open>torch.load\<close>, the network topology, the two data loaders' lengths, the outcome of
  each batch (it may depend on the whole state), and the \<open>{:.3f}\<close> formatting of a
  float.
\<close>

record env =
  bi :: builtins
  path_exists :: "string \<Rightarrow> bool"
  isfile :: "string \<Rightarrow> bool"
  torch_load :: "string \<Rightarrow> error + checkpoint"
  the_net :: net_spec
  len_train_loader :: nat
  len_val_loader :: nat
  train_step :: "world \<Rightarrow> nat \<Rightarrow> batch_result"
  eval_step :: "world \<Rightarrow> nat \<Rightarrow> eval_result"
  format_3f :: "real \<Rightarrow> string"

subsection \<open>Mode-set routines\<close>

text \<open>
  \<open>model.set_fix_method(method, method_by_type=...)\<close> as a call on the state: it is
  recorded in the trace and changes the model's policies.
\<close>

definition call_set_fix_method :: "fix_method \<Rightarrow> method_by_type \<Rightarrow> world \<Rightarrow> world" where
  "call_set_fix_method method by_type w =
     w\<lparr>model := set_fix_method method by_type (model w),
       trace := trace w @ [SetFixMethod method by_type]\<rparr>"

text \<open>
  \<^verbatim>\<open>
  def _set_fix_method_train_ori(model):
      model.set_fix_method(nfp.FIX_AUTO)
  def _set_fix_method_eval_ori(model):
      model.set_fix_method(nfp.FIX_FIXED)
  def _set_fix_method_train(model):
      model.set_fix_method(nfp.FIX_AUTO, method_by_type={
          "BatchNorm2d_fix": {"weight": nfp.FIX_AUTO, "bias": nfp.FIX_AUTO,
                              "running_mean": nfp.FIX_NONE, "running_var": nfp.FIX_NONE}})
  def _set_fix_method_eval(model):
      model.set_fix_method(nfp.FIX_FIXED, method_by_type={
          "BatchNorm2d_fix": {"weight": nfp.FIX_FIXED, "bias": nfp.FIX_FIXED,
                              "running_mean": nfp.FIX_AUTO, "running_var": nfp.FIX_AUTO}})
  \<close>
  The names drop the leading underscore. The last two are defined in the source and
  called nowhere.
\<close>

definition set_fix_method_train_ori :: "world \<Rightarrow> world" where
  "set_fix_method_train_ori w = call_set_fix_method FIX_AUTO [] w"

definition set_fix_method_eval_ori :: "world \<Rightarrow> world" where
  "set_fix_method_eval_ori w = call_set_fix_method FIX_FIXED [] w"

definition set_fix_method_train :: "world \<Rightarrow> world" where
  "set_fix_method_train w =
     call_set_fix_method FIX_AUTO
       [(''BatchNorm2d_fix'',
         [(''weight'', FIX_AUTO), (''bias'', FIX_AUTO),
          (''running_mean'', FIX_NONE), (''running_var'', FIX_NONE)])] w"

definition set_fix_method_eval :: "world \<Rightarrow> world" where
  "set_fix_method_eval w =
     call_set_fix_method FIX_FIXED
       [(''BatchNorm2d_fix'',
         [(''weight'', FIX_FIXED), (''bias'', FIX_FIXED),
          (''running_mean'', FIX_AUTO), (''running_var'', FIX_AUTO)])] w"

text \<open>\<open>model.train()\<close> and \<open>model.eval()\<close>.\<close>

definition model_train :: "world \<Rightarrow> world" where
  "model_train w = w\<lparr>model := (model w)\<lparr>training := True\<rparr>, trace := trace w @ [ModelTrain]\<rparr>"

definition model_eval :: "world \<Rightarrow> world" where
  "model_eval w = w\<lparr>model := (model w)\<lparr>training := False\<rparr>, trace := trace w @ [ModelEval]\<rparr>"

subsection \<open>train and validate\<close>

text \<open>
  One iteration of the loop of \<open>train\<close>: forward, loss, \<open>zero_grad\<close>, \<open>backward\<close>,
  \<open>optimizer.step()\<close> (the environment's \<open>train_step\<close>), then the two meter updates
  and the test \<open>i % args.print_freq == 0\<close>, which raises when \<open>print_freq\<close> is 0.
\<close>

definition train_batch ::
  "env \<Rightarrow> int \<Rightarrow> nat \<Rightarrow> AverageMeter \<times> AverageMeter \<Rightarrow> world \<Rightarrow> (AverageMeter \<times> AverageMeter) outcome" where
  "train_batch env ep i ms w =
     (let r = train_step env w i;
          w1 = w\<lparr>model := (model w)\<lparr>tensors := new_tensors r, ranges := new_ranges r\<rparr>,
                 trace := trace w @ [TrainBatch ep i (modules (model w))]\<rparr>
      in case update (loss r) (size0 r) (fst ms) of
           Inl e \<Rightarrow> Raised e (trace w1)
         | Inr losses \<Rightarrow>
        (case update (prec1 r) (size0 r) (snd ms) of
           Inl e \<Rightarrow> Raised e (trace w1)
         | Inr top1 \<Rightarrow>
             if print_freq (wargs w1) = 0 then Raised ZeroDivisionError (trace w1)
             else Returned (losses, top1) w1))"

fun train_batches ::
  "env \<Rightarrow> int \<Rightarrow> nat list \<Rightarrow> AverageMeter \<times> AverageMeter \<Rightarrow> world \<Rightarrow> (AverageMeter \<times> AverageMeter) outcome" where
  "train_batches env ep [] ms w = Returned ms w"
| "train_batches env ep (i # is) ms w =
     (case train_batch env ep i ms w of
        Raised e t \<Rightarrow> Raised e t
      | Returned ms' w' \<Rightarrow> train_batches env ep is ms' w')"

text \<open>
  \<^verbatim>\<open>
  def train(train_loader, model, p_model, criterion, optimizer, epoch):
      losses = AverageMeter(); top1 = AverageMeter()
      _set_fix_method_train_ori(model)
      model.train()
      for i, (input, target) in enumerate(train_loader): ...
  \<close>
\<close>

definition train :: "env \<Rightarrow> int \<Rightarrow> world \<Rightarrow> unit outcome" where
  "train env ep w =
     (let losses = AverageMeter_init;
          top1 = AverageMeter_init;
          w1 = set_fix_method_train_ori w;
          w2 = model_train w1
      in case train_batches env ep [0..<len_train_loader env] (losses, top1) w2 of
           Raised e t \<Rightarrow> Raised e t
         | Returned ms w3 \<Rightarrow> Returned () w3)"

text \<open>One iteration of the loop of \<open>validate\<close>: forward and loss only, then the meters.\<close>

definition validate_batch ::
  "env \<Rightarrow> nat \<Rightarrow> AverageMeter \<times> AverageMeter \<Rightarrow> world \<Rightarrow> (AverageMeter \<times> AverageMeter) outcome" where
  "validate_batch env i ms w =
     (let r = eval_step env w i;
          w1 = w\<lparr>trace := trace w @ [EvalBatch i (modules (model w))]\<rparr>
      in case update (loss r) (size0 r) (fst ms) of
           Inl e \<Rightarrow> Raised e (trace w1)
         | Inr losses \<Rightarrow>
        (case update (prec1 r) (size0 r) (snd ms) of
           Inl e \<Rightarrow> Raised e (trace w1)
         | Inr top1 \<Rightarrow>
             if print_freq (wargs w1) = 0 then Raised ZeroDivisionError (trace w1)
             else Returned (losses, top1) w1))"

fun validate_batches ::
  "env \<Rightarrow> nat list \<Rightarrow> AverageMeter \<times> AverageMeter \<Rightarrow> world \<Rightarrow> (AverageMeter \<times> AverageMeter) outcome" where
  "validate_batches env [] ms w = Returned ms w"
| "validate_batches env (i # is) ms w =
     (case validate_batch env i ms w of
        Raised e t \<Rightarrow> Raised e t
      | Returned ms' w' \<Rightarrow> validate_batches env is ms' w')"

text \<open>
  \<^verbatim>\<open>
  def validate(val_loader, model, p_model, criterion):
      losses = AverageMeter(); top1 = AverageMeter()
      _set_fix_method_eval_ori(model)
      model.eval()
      with torch.no_grad():
          for i, (input, target) in enumerate(val_loader): ...
      print(" * Prec@1 {top1.avg:.3f}%\tBest Prec@1 {best_prec1:.3f}%".format(...))
      return top1.avg
  \<close>
\<close>

definition validate :: "env \<Rightarrow> world \<Rightarrow> real outcome" where
  "validate env w =
     (let losses = AverageMeter_init;
          top1 = AverageMeter_init;
          w1 = set_fix_method_eval_ori w;
          w2 = model_eval w1
      in case validate_batches env [0..<len_val_loader env] (losses, top1) w2 of
           Raised e t \<Rightarrow> Raised e t
         | Returned ms w3 \<Rightarrow>
             Returned (avg (snd ms))
               (w3\<lparr>trace := trace w3 @ [PrintPrec (avg (snd ms)) (best_prec1 w3)]\<rparr>))"

subsection \<open>main\<close>

text \<open>\<open>s.split(c)\<close> for a one-character separator.\<close>

fun split_on :: "char \<Rightarrow> string \<Rightarrow> string list" where
  "split_on c [] = [] # []"
| "split_on c (x # xs) =
     (if x = c then [] # split_on c xs
      else (case split_on c xs of [] \<Rightarrow> [x] # [] | p # ps \<Rightarrow> (x # p) # ps))"

text \<open>
  \<open>os.path.join(a, b)\<close> for a relative \<open>b\<close>, and the checkpoint's file name
  \<open>os.path.join(args.save_dir, "checkpoint_{}_{:.3f}.tar".format(args.prefix, best_prec1))\<close>.
\<close>

definition path_join :: "string \<Rightarrow> string \<Rightarrow> string" where
  "path_join a b = (if a = [] then b else if last a = CHR ''/'' then a @ b else a @ ''/'' @ b)"

definition checkpoint_filename :: "env \<Rightarrow> args \<Rightarrow> real \<Rightarrow> string" where
  "checkpoint_filename env a best =
     path_join (save_dir a) (''checkpoint_'' @ prefix a @ ''_'' @ format_3f env best @ ''.tar'')"

text \<open>
  \<^verbatim>\<open>
  def save_checkpoint(state, is_best, filename="checkpoint.pth.tar"):
      torch.save(state, filename)
  \<close>
\<close>

definition save_checkpoint :: "checkpoint \<Rightarrow> bool \<Rightarrow> string \<Rightarrow> world \<Rightarrow> world" where
  "save_checkpoint state is_best filename w = w\<lparr>trace := trace w @ [TorchSave filename state]\<rparr>"

text \<open>
  \<^verbatim>\<open>
  if args.resume:
      if os.path.isfile(args.resume):
          checkpoint = torch.load(args.resume)
          args.start_epoch = checkpoint["epoch"]
          best_prec1 = checkpoint["best_prec1"]
          model.load_state_dict(checkpoint["state_dict"])
      else:
          assert os.path.isfile(args.resume)
  \<close>
\<close>

definition main_resume :: "env \<Rightarrow> world \<Rightarrow> unit outcome" where
  "main_resume env w =
     (if resume (wargs w) \<noteq> [] then
        if isfile env (resume (wargs w)) then
          let w1 = w\<lparr>trace := trace w @ [TorchLoad (resume (wargs w))]\<rparr> in
          case torch_load env (resume (wargs w)) of
            Inl e \<Rightarrow> Raised e (trace w1)
          | Inr checkpoint \<Rightarrow>
          (case ck_epoch checkpoint of
            None \<Rightarrow> Raised (KeyError ''epoch'') (trace w1)
          | Some ep \<Rightarrow>
          let w2 = w1\<lparr>wargs := (wargs w1)\<lparr>start_epoch := ep\<rparr>\<rparr> in
          (case ck_best_prec1 checkpoint of
            None \<Rightarrow> Raised (KeyError ''best_prec1'') (trace w2)
          | Some best \<Rightarrow>
          let w3 = w2\<lparr>best_prec1 := best\<rparr> in
          (case ck_state_dict checkpoint of
            None \<Rightarrow> Raised (KeyError ''state_dict'') (trace w3)
          | Some sd \<Rightarrow> Returned () (w3\<lparr>model := load_state_dict sd (model w3)\<rparr>))))
        else Raised AssertionError (trace w)
      else Returned () w)"

text \<open>
  \<^verbatim>\<open>
  if args.pretrained:
      if os.path.isfile(args.pretrained):
          checkpoint = torch.load(args.pretrained)
          model.load_state_dict(checkpoint["state_dict"])
      else:
          assert os.path.isfile(args.pretrained)
  \<close>
\<close>

definition main_pretrained :: "env \<Rightarrow> world \<Rightarrow> unit outcome" where
  "main_pretrained env w =
     (if pretrained (wargs w) \<noteq> [] then
        if isfile env (pretrained (wargs w)) then
          let w1 = w\<lparr>trace := trace w @ [TorchLoad (pretrained (wargs w))]\<rparr> in
          case torch_load env (pretrained (wargs w)) of
            Inl e \<Rightarrow> Raised e (trace w1)
          | Inr checkpoint \<Rightarrow>
          (case ck_state_dict checkpoint of
            None \<Rightarrow> Raised (KeyError ''state_dict'') (trace w1)
          | Some sd \<Rightarrow> Returned () (w1\<lparr>model := load_state_dict sd (model w1)\<rparr>))
        else Raised AssertionError (trace w)
      else Returned () w)"

text \<open>
  The start of \<open>main\<close> after \<open>parse_args\<close>: the GPU list
  \<open>[int(d) for d in args.gpu.split(",")]\<close>, \<open>set_device(gpus[0])\<close>, the save
  directory, the construction of the model from the arguments, and the two optional
  checkpoint loads. \<open>best_prec1\<close> starts at the module-level 90. The calls in between
  that only print or place the model (\<open>print_fix_configs\<close>, \<open>model.cuda()\<close>,
  \<open>DataParallel\<close>) change nothing a later step reads and are left out.
\<close>

definition main_setup :: "env \<Rightarrow> args \<Rightarrow> unit outcome" where
  "main_setup env a =
     (case those (map (py_int (bi env)) (split_on CHR '','' (gpu a))) of
        None \<Rightarrow> Raised ValueError []
      | Some gpus \<Rightarrow>
      (case gpus of
        [] \<Rightarrow> Raised IndexError []
      | g # gs \<Rightarrow>
          let t1 = [SetDevice g];
              t2 = (if \<not> path_exists env (save_dir a) then t1 @ [MakeDirs (save_dir a)] else t1)
          in case FixNet (the_net env) (\<not> float_bn a) (fix_grad a) (range_method a)
                    (grad_range_method a) (bitwidth_data a) (bitwidth_grad a) of
               Inl e \<Rightarrow> Raised e t2
             | Inr m \<Rightarrow>
                 let w = \<lparr>wargs = a, model = m, optimizer = [], best_prec1 = 90, trace = t2\<rparr>
                 in (case main_resume env w of
                       Raised e t \<Rightarrow> Raised e t
                     | Returned u w1 \<Rightarrow> main_pretrained env w1)))"

text \<open>
  The body of the epoch loop:
  \<^verbatim>\<open>
  adjust_learning_rate(optimizer, epoch)
  train(train_loader, model, parallel_model, criterion, optimizer, epoch)
  prec1 = validate(val_loader, model, parallel_model, criterion)
  is_best = prec1 > best_prec1
  best_prec1 = max(prec1, best_prec1)
  if best_prec1 > 90 and is_best:
      save_checkpoint({"epoch": epoch + 1, "state_dict": model.state_dict(),
                       "best_prec1": best_prec1}, is_best, filename=...)
  \<close>
\<close>

definition main_epoch :: "env \<Rightarrow> int \<Rightarrow> world \<Rightarrow> unit outcome" where
  "main_epoch env ep w =
     (let w1 = w\<lparr>optimizer := adjust_learning_rate (lr (wargs w)) (optimizer w) ep\<rparr>
      in case train env ep w1 of
           Raised e t \<Rightarrow> Raised e t
         | Returned u w2 \<Rightarrow>
        (case validate env w2 of
           Raised e t \<Rightarrow> Raised e t
         | Returned p w3 \<Rightarrow>
             let is_best = (p > best_prec1 w3);
                 w4 = w3\<lparr>best_prec1 := max p (best_prec1 w3)\<rparr>
             in if best_prec1 w4 > 90 \<and> is_best
                then Returned ()
                       (save_checkpoint
                          \<lparr>ck_epoch = Some (ep + 1),
                           ck_state_dict = Some (state_dict (model w4)),
                           ck_best_prec1 = Some (best_prec1 w4)\<rparr>
                          is_best
                          (checkpoint_filename env (wargs w4) (best_prec1 w4)) w4)
                else Returned () w4))"

fun main_epochs :: "env \<Rightarrow> int list \<Rightarrow> world \<Rightarrow> unit outcome" where
  "main_epochs env [] w = Returned () w"
| "main_epochs env (ep # eps) w =
     (case main_epoch env ep w of
        Raised e t \<Rightarrow> Raised e t
      | Returned u w' \<Rightarrow> main_epochs env eps w')"

text \<open>
  \<open>main\<close>: parse the command line, set up, build the optimizer (\<open>torch.optim.SGD\<close>
  over \<open>model.parameters()\<close>: one parameter group holding the rate, the momentum and
  the weight decay), then either one evaluation, or the loop
  \<open>for epoch in range(args.start_epoch, args.epoch)\<close>. The data loaders and the
  criterion are the environment's: their batches come through \<open>train_step\<close> and
  \<open>eval_step\<close>.
\<close>

definition main :: "env \<Rightarrow> opt list \<Rightarrow> unit outcome" where
  "main env argv =
     (case parse_args (bi env) argv of
        Inl e \<Rightarrow> Raised e []
      | Inr a \<Rightarrow>
      (case main_setup env a of
        Raised e t \<Rightarrow> Raised e t
      | Returned u w \<Rightarrow>
          let w1 = w\<lparr>optimizer :=
                      [Map.empty(''lr'' \<mapsto> lr (wargs w), ''momentum'' \<mapsto> momentum (wargs w),
                        ''weight_decay'' \<mapsto> weight_decay (wargs w))]\<rparr>
          in if evaluate (wargs w1)
             then (case validate env w1 of
                     Raised e t \<Rightarrow> Raised e t
                   | Returned p w2 \<Rightarrow> Returned () w2)
             else main_epochs env [start_epoch (wargs w1) .. epoch (wargs w1) - 1] w1))"

subsection \<open>An example environment\<close>

text \<open>
  A small concrete environment on which the driver can be run: conversions that know a
  few numerals, one existing checkpoint file, a network of one convolution and one batch
  normalization layer, and loaders of one batch each.
\<close>

definition example_builtins :: builtins where
  "example_builtins =
     \<lparr>py_int = (\<lambda>s. if s = ''0'' then Some 0 else if s = ''1'' then Some 1
                    else if s = ''2'' then Some 2 else if s = ''8'' then Some 8 else None),
      py_float = (\<lambda>s. if s = ''-1'' then Some (- 1) else None)\<rparr>"

definition example_net :: net_spec where
  "example_net =
     \<lparr>layers =
        [(''Conv2d_fix'', [(''weight'', FIX_AUTO), (''bias'', FIX_AUTO)]),
         (''BatchNorm2d_fix'',
          [(''weight'', FIX_AUTO), (''bias'', FIX_AUTO),
           (''running_mean'', FIX_AUTO), (''running_var'', FIX_AUTO)])],
      init_tensors = [(''conv.weight'', [1 / 2])],
      init_ranges = [1]\<rparr>"

definition example_checkpoint :: checkpoint where
  "example_checkpoint =
     \<lparr>ck_epoch = Some 1, ck_state_dict = Some [(''conv.weight'', [1 / 4])],
      ck_best_prec1 = Some 92\<rparr>"

definition example_env :: env where
  "example_env =
     \<lparr>bi = example_builtins,
      path_exists = (\<lambda>p. True),
      isfile = (\<lambda>p. p = ''ckpt.tar''),
      torch_load = (\<lambda>p. Inr example_checkpoint),
      the_net = example_net,
      len_train_loader = 1,
      len_val_loader = 1,
      train_step = (\<lambda>w i. \<lparr>loss = 1, prec1 = 50, size0 = 128,
                             new_tensors = tensors (model w), new_ranges = ranges (model w)\<rparr>),
      eval_step = (\<lambda>w i. \<lparr>loss = 1, prec1 = 95, size0 = 32\<rparr>),
      format_3f = (\<lambda>x. ''95.000'')\<rparr>"

subsection \<open>Reading a trace\<close>

text \<open>
  The validation precisions printed in a trace, in order, and whether an event writes a
  checkpoint file.
\<close>

fun precisions :: "event list \<Rightarrow> real list" where
  "precisions [] = []"
| "precisions (PrintPrec p b # t) = p # precisions t"
| "precisions (ev # t) = precisions t"

fun is_save :: "event \<Rightarrow> bool" where
  "is_save (TorchSave f ck) = True"
| "is_save ev = False"

text \<open>The modes of a policy tree, as a dict from module type to a dict from role to mode.\<close>

definition modes_of :: "fix_module list \<Rightarrow> method_by_type" where
  "modes_of ms = map (\<lambda>m. (m_type m, map (\<lambda>p. (p_role p, p_mode p)) (m_policies m))) ms"

text \<open>
  What a batch leaves alone: the arguments, the optimizer's groups, the best precision
  and, of the model, its configuration, its policies and its training flag.
\<close>

definition batch_frame :: "world \<Rightarrow> world \<Rightarrow> bool" where
  "batch_frame w w' =
     (wargs w' = wargs w \<and> optimizer w' = optimizer w \<and> best_prec1 w' = best_prec1 w
      \<and> cfg (model w') = cfg (model w) \<and> modules (model w') = modules (model w)
      \<and> training (model w') = training (model w))"

text \<open>
  A state to call \<open>train\<close> and \<open>validate\<close> on: the default arguments, a model of one
  batch normalization layer whose two policies are in mode \<open>FIX_NONE\<close>, and an empty
  trace.
\<close>

definition example_world :: world where
  "example_world =
     \<lparr>wargs = defaults\<lparr>save_dir := ''out''\<rparr>,
      model =
        \<lparr>cfg = \<lparr>c_fix_bn = True, c_fix_grad = False, c_range_method = RANGE_MAX,
                c_grad_range_method = RANGE_MAX, c_bitwidth_data = 8, c_bitwidth_grad = 16\<rparr>,
         modules =
           [\<lparr>m_type = ''BatchNorm2d_fix'',
             m_policies =
               [\<lparr>p_role = ''weight'', p_mode = FIX_NONE, p_bitwidth = 8, p_range = RANGE_MAX\<rparr>,
                \<lparr>p_role = ''running_mean'', p_mode = FIX_NONE, p_bitwidth = 8,
                 p_range = RANGE_MAX\<rparr>]\<rparr>],
         tensors = [],
         ranges = [],
         training = True\<rparr>,
      optimizer = [],
      best_prec1 = 90,
      trace = []\<rparr>"

text \<open>
  The events of startup: selecting the device, creating the save directory, loading a
  checkpoint from a file that exists.
\<close>

fun startup_event :: "env \<Rightarrow> event \<Rightarrow> bool" where
  "startup_event env (SetDevice d) = True"
| "startup_event env (MakeDirs p) = True"
| "startup_event env (TorchLoad p) = isfile env p"
| "startup_event env ev = False"

text \<open>
  Every checkpoint write in a trace comes right after a printed validation precision
  that exceeds 90 and every precision printed before it.
\<close>

definition saves_justified :: "event list \<Rightarrow> bool" where
  "saves_justified t =
     (\<forall>pre ev post. t = pre @ ev # post \<and> is_save ev \<longrightarrow>
        (\<exists>pre' p b. pre = pre' @ [PrintPrec p b] \<and> 90 < p
            \<and> (\<forall>q \<in> set (precisions pre'). q < p)))"

section \<open>Properties\<close>

subsection \<open>AverageMeter\<close>

lemma updates_from:
  assumes "\<forall>(v, n) \<in> set us. 0 < n" and "0 \<le> count m"
  shows "\<exists>m'. updates us m = Inr m'
     \<and> count m' = count m + (\<Sum>(v, n)\<leftarrow>us. n)
     \<and> sum_m m' = sum_m m + (\<Sum>(v, n)\<leftarrow>us. v * of_int n)
     \<and> (us \<noteq> [] \<longrightarrow> 0 < count m' \<and> avg m' = sum_m m' / of_int (count m'))"
  using assms
proof (induction us arbitrary: m)
  case Nil
  then show ?case by simp
next
  case (Cons u us)
  obtain v n where u: "u = (v, n)" by (cases u)
  from Cons.prems u have n: "0 < n" by simp
  let ?m1 = "m\<lparr>val := v, sum_m := sum_m m + v * of_int n, count := count m + n,
                 avg := (sum_m m + v * of_int n) / of_int (count m + n)\<rparr>"
  have step: "update v n m = Inr ?m1"
    using n Cons.prems(2) by (simp add: update_def Let_def)
  have pos: "0 < count ?m1" using n Cons.prems(2) by simp
  from Cons.prems(1) have rest: "\<forall>(v, n) \<in> set us. 0 < n" by simp
  from Cons.IH [OF rest, of ?m1] pos obtain m' where
    m': "updates us ?m1 = Inr m'"
        "count m' = count ?m1 + (\<Sum>(v, n)\<leftarrow>us. n)"
        "sum_m m' = sum_m ?m1 + (\<Sum>(v, n)\<leftarrow>us. v * of_int n)"
        "us \<noteq> [] \<longrightarrow> 0 < count m' \<and> avg m' = sum_m m' / of_int (count m')"
    by auto
  have "us = [] \<Longrightarrow> m' = ?m1" using m'(1) by simp
  then have "0 < count m' \<and> avg m' = sum_m m' / of_int (count m')"
    using m'(4) pos by (cases "us = []") auto
  then show ?case using m' step u by (simp add: algebra_simps)
qed

text \<open>
  Claim C9. After \<open>reset\<close> the fields \<open>val\<close>, \<open>avg\<close>, \<open>sum\<close> and \<open>count\<close> are all 0.
  A sequence of \<open>update(val_i, n_i)\<close> calls with every \<open>n_i\<close> positive, made on a reset
  meter, raises nothing (no division by zero), and leaves \<open>count\<close> equal to the sum of
  the \<open>n_i\<close>, \<open>sum\<close> equal to the sum of the \<open>val_i * n_i\<close> and, once at least one
  update was made, a positive \<open>count\<close> and \<open>avg = sum / count\<close>.
\<close>

theorem AverageMeter_running_average:
  assumes "\<forall>(v, n) \<in> set us. 0 < n"
  shows "val (reset m) = 0 \<and> avg (reset m) = 0 \<and> sum_m (reset m) = 0 \<and> count (reset m) = 0
     \<and> (\<exists>m'. updates us (reset m) = Inr m'
          \<and> count m' = (\<Sum>(v, n)\<leftarrow>us. n)
          \<and> sum_m m' = (\<Sum>(v, n)\<leftarrow>us. v * of_int n)
          \<and> (us \<noteq> [] \<longrightarrow> 0 < count m' \<and> avg m' = sum_m m' / of_int (count m')))"
proof -
  have "0 \<le> count (reset m)" by (simp add: reset_def)
  from updates_from [OF assms this] show ?thesis by (simp add: reset_def)
qed

theorem AverageMeter_running_average_witness:
  "\<exists>m'. updates [(1 / 2, 128), (1 / 4, 64)] (reset AverageMeter_init) = Inr m'
      \<and> count m' = 192 \<and> sum_m m' = 80 \<and> 0 < count m' \<and> avg m' = sum_m m' / of_int (count m')"
  using AverageMeter_running_average [of "[(1 / 2, 128), (1 / 4, 64)]" AverageMeter_init]
  by simp

subsection \<open>Learning-rate schedule\<close>

lemma adjust_lr_value:
  "0 \<le> e \<Longrightarrow> g \<in> set (adjust_learning_rate lr0 gs e) \<Longrightarrow>
     g ''lr'' = Some (lr0 * (1 / 2) ^ nat (e div 10))"
  by (auto simp: adjust_learning_rate_def power_int_def div_int_pos_iff)

text \<open>
  Claim C10. For every epoch \<open>e \<ge> 0\<close>, \<open>adjust_learning_rate\<close> keeps the parameter
  groups and sets the learning rate of every one of them to
  \<open>initial_lr * 0.5 ^ (e div 10)\<close>; the rate is identical across groups, and for an
  initial rate \<open>initial_lr \<ge> 0\<close> it is non-increasing as the epoch number grows.
\<close>

theorem adjust_learning_rate_decay:
  "0 \<le> e \<longrightarrow>
     length (adjust_learning_rate lr0 gs e) = length gs
     \<and> (\<forall>g \<in> set (adjust_learning_rate lr0 gs e). g ''lr'' = Some (lr0 * (1 / 2) ^ nat (e div 10)))
     \<and> (\<forall>g \<in> set (adjust_learning_rate lr0 gs e). \<forall>g' \<in> set (adjust_learning_rate lr0 gs e).
           g ''lr'' = g' ''lr'')
     \<and> (0 \<le> lr0 \<and> e \<le> e' \<longrightarrow>
          (\<forall>g \<in> set (adjust_learning_rate lr0 gs e). \<forall>g' \<in> set (adjust_learning_rate lr0 gs e').
             \<exists>l l'. g ''lr'' = Some l \<and> g' ''lr'' = Some l' \<and> l' \<le> l))"
proof (intro impI conjI ballI)
  assume e: "0 \<le> e"
  show "length (adjust_learning_rate lr0 gs e) = length gs"
    by (simp add: adjust_learning_rate_def)
  fix g assume g: "g \<in> set (adjust_learning_rate lr0 gs e)"
  from adjust_lr_value [OF e g]
  show v: "g ''lr'' = Some (lr0 * (1 / 2) ^ nat (e div 10))" .
  {
    fix g' assume "g' \<in> set (adjust_learning_rate lr0 gs e)"
    from adjust_lr_value [OF e this] v show "g ''lr'' = g' ''lr''" by simp
  }
  fix g' assume g': "g' \<in> set (adjust_learning_rate lr0 gs e')" and h: "0 \<le> lr0 \<and> e \<le> e'"
  from h e have e': "0 \<le> e'" by simp
  have v': "g' ''lr'' = Some (lr0 * (1 / 2) ^ nat (e' div 10))"
    by (rule adjust_lr_value [OF e' g'])
  have "e div 10 \<le> e' div 10" using h by (simp add: zdiv_mono1)
  then have "nat (e div 10) \<le> nat (e' div 10)" by simp
  then have "((1 / 2) :: real) ^ nat (e' div 10) \<le> (1 / 2) ^ nat (e div 10)"
    by (intro power_decreasing) simp_all
  then have "lr0 * (1 / 2) ^ nat (e' div 10) \<le> lr0 * (1 / 2) ^ nat (e div 10)"
    using h by (intro mult_left_mono) simp_all
  with v v' show "\<exists>l l'. g ''lr'' = Some l \<and> g' ''lr'' = Some l' \<and> l' \<le> l" by simp
qed

theorem adjust_learning_rate_decay_witness:
  "length (adjust_learning_rate (5 / 100) [Map.empty, Map.empty] 25) = 2
   \<and> hd (adjust_learning_rate (5 / 100) [Map.empty, Map.empty] 25) ''lr''
       = Some (5 / 100 * (1 / 2) ^ 2)
   \<and> hd (adjust_learning_rate (5 / 100) [Map.empty, Map.empty] 25) ''lr''
       = last (adjust_learning_rate (5 / 100) [Map.empty, Map.empty] 25) ''lr''
   \<and> (\<exists>l l'. hd (adjust_learning_rate (5 / 100) [Map.empty, Map.empty] 25) ''lr'' = Some l
         \<and> hd (adjust_learning_rate (5 / 100) [Map.empty, Map.empty] 40) ''lr'' = Some l'
         \<and> l' \<le> l)"
proof -
  let ?a = "adjust_learning_rate (5 / 100) [Map.empty, Map.empty] 25"
  let ?b = "adjust_learning_rate (5 / 100) [Map.empty, Map.empty] 40"
  have ma: "hd ?a \<in> set ?a" "last ?a \<in> set ?a" and mb: "hd ?b \<in> set ?b"
    by (simp_all add: adjust_learning_rate_def Let_def)
  have t: "length ?a = length [Map.empty :: param_group, Map.empty]
     \<and> (\<forall>g \<in> set ?a. g ''lr'' = Some (5 / 100 * (1 / 2) ^ nat (25 div 10)))
     \<and> (\<forall>g \<in> set ?a. \<forall>g' \<in> set ?a. g ''lr'' = g' ''lr'')
     \<and> (\<forall>g \<in> set ?a. \<forall>g' \<in> set ?b. \<exists>l l'. g ''lr'' = Some l \<and> g' ''lr'' = Some l' \<and> l' \<le> l)"
    using adjust_learning_rate_decay [of 25 "5 / 100" "[Map.empty, Map.empty]" 40] by simp
  from t have A: "length ?a = 2" by simp
  from t ma(1) have "hd ?a ''lr'' = Some (5 / 100 * (1 / 2) ^ nat (25 div 10))" by blast
  then have B: "hd ?a ''lr'' = Some (5 / 100 * (1 / 2) ^ 2)" by simp
  from t ma have C: "hd ?a ''lr'' = last ?a ''lr''" by blast
  from t ma(1) mb
  have D: "\<exists>l l'. hd ?a ''lr'' = Some l \<and> hd ?b ''lr'' = Some l' \<and> l' \<le> l" by blast
  from A B C D show ?thesis by (intro conjI)
qed


subsection \<open>Quantizer\<close>

lemma levels_int: "2 \<le> b \<Longrightarrow> levels b = of_int (2 ^ nat (b - 1) - 1)"
  by (simp add: levels_def power_int_def)

lemma levels_pos: "2 \<le> b \<Longrightarrow> 1 \<le> levels b"
proof -
  assume b: "2 \<le> b"
  then have "1 \<le> nat (b - 1)" by simp
  then have "(2::real) ^ 1 \<le> 2 ^ nat (b - 1)" by (intro power_increasing) simp_all
  then show ?thesis using b by (simp add: levels_def power_int_def)
qed

lemma quantize_value_multiple:
  assumes "2 \<le> b"
  shows "\<exists>m :: int. quantize_value b s x = of_int m * s"
proof -
  let ?L = "2 ^ nat (b - 1) - 1 :: int"
  let ?y = "of_int (round (x / s)) * s"
  have L: "levels b = of_int ?L" using assms by (rule levels_int)
  have "quantize_value b s x = ?y \<or> quantize_value b s x = of_int ?L * s
        \<or> quantize_value b s x = of_int (- ?L) * s"
    unfolding quantize_value_def Let_def L by (auto simp: max_def min_def)
  then show ?thesis by blast
qed

lemma clamp_idem:
  "max lo (min hi (max lo (min hi (y::real)))) = max lo (min hi y)"
  by (auto simp: max_def min_def)

lemma quantize_value_idem:
  assumes "2 \<le> b" and "s \<noteq> 0"
  shows "quantize_value b s (quantize_value b s x) = quantize_value b s x"
proof -
  obtain m :: int where m: "quantize_value b s x = of_int m * s"
    using quantize_value_multiple [OF assms(1)] by blast
  have "of_int (round (quantize_value b s x / s)) * s = quantize_value b s x"
    using assms(2) by (simp add: m)
  then have "quantize_value b s (quantize_value b s x)
      = max (- levels b * s) (min (levels b * s) (quantize_value b s x))"
    by (simp add: quantize_value_def [of b s "quantize_value b s x"] Let_def)
  also have "\<dots> = quantize_value b s x"
    unfolding quantize_value_def [of b s x] Let_def by (rule clamp_idem)
  finally show ?thesis .
qed

lemma quantize_defined:
  assumes "2 \<le> b" and "rd_value rd \<noteq> 0"
  shows "quantize b rd x = Inr (map (quantize_value b (rd_value rd / levels b)) x)"
    and "rd_value rd / levels b \<noteq> 0"
  using levels_pos [OF assms(1)] assms(2) by (simp_all add: quantize_def scale_of_def)

lemma quantize_again:
  assumes "2 \<le> b" and "quantize b rd x = Inr y"
  shows "quantize b rd y = Inr y"
proof -
  from levels_pos [OF assms(1)] have l: "levels b \<noteq> 0" by simp
  let ?s = "rd_value rd / levels b"
  from assms(2) l have s: "?s \<noteq> 0" and y: "y = map (quantize_value b ?s) x"
    by (auto simp: quantize_def scale_of_def split: if_splits)
  have "map (quantize_value b ?s) y = y"
    unfolding y using quantize_value_idem [OF assms(1) s] by simp
  then show ?thesis using l s by (simp add: quantize_def scale_of_def)
qed

text \<open>
  Claim C7. For every tensor \<open>x\<close> and every bitwidth \<open>b \<ge> 2\<close>, quantizing with
  a given range descriptor whose value is not zero succeeds, and quantizing the result
  again with the same bitwidth and descriptor returns it unchanged:
  \<open>quantize(quantize(x)) = quantize(x)\<close>.
\<close>

theorem quantize_idempotent:
  "2 \<le> b \<longrightarrow>
     (rd_value rd \<noteq> 0 \<longrightarrow> (\<exists>y. quantize b rd x = Inr y))
     \<and> (\<forall>y. quantize b rd x = Inr y \<longrightarrow> quantize b rd y = Inr y)"
  using quantize_defined(1) quantize_again by blast

theorem quantize_idempotent_witness:
  "\<exists>y. quantize 8 \<lparr>rd_method = RANGE_MAX, rd_value = 10\<rparr> [- 10, - 1, 0, 1, 10] = Inr y
      \<and> quantize 8 \<lparr>rd_method = RANGE_MAX, rd_value = 10\<rparr> y = Inr y"
  using quantize_idempotent [of 8 "\<lparr>rd_method = RANGE_MAX, rd_value = 10\<rparr>" "[- 10, - 1, 0, 1, 10]"]
  by simp blast

subsection \<open>Command line\<close>

lemma choice_arg_rejects: "choice_arg name s = Inl (ArgumentError name)"
  by (simp add: choice_arg_def choices_def)

lemma parse_opt_error:
  "parse_opt cv x st = Inl e \<Longrightarrow> \<exists>m. e = ArgumentError m"
  by (cases x; cases st)
     (auto simp: int_arg_def float_arg_def choice_arg_rejects split: option.splits)

lemma parse_opts_error:
  "parse_opts cv xs st = Inl e \<Longrightarrow> \<exists>m. e = ArgumentError m"
proof (induction xs arbitrary: st)
  case Nil
  then show ?case by simp
next
  case (Cons x xs)
  then show ?case
    by (cases "parse_opt cv x st") (auto dest: parse_opt_error)
qed

lemma parse_args_error:
  "parse_args cv argv = Inl e \<Longrightarrow> \<exists>m. e = ArgumentError m"
  by (auto simp: parse_args_def split: sum.splits prod.splits if_splits dest: parse_opts_error)

lemma parse_opts_range_method:
  "Opt_range_method s \<in> set xs \<or> Opt_grad_range_method s \<in> set xs \<Longrightarrow>
     \<exists>e. parse_opts cv xs st = Inl e"
proof (induction xs arbitrary: st)
  case Nil
  then show ?case by simp
next
  case (Cons x xs)
  show ?case
  proof (cases "parse_opt cv x st")
    case (Inl e)
    then show ?thesis by simp
  next
    case (Inr st')
    have "x \<noteq> Opt_range_method s" "x \<noteq> Opt_grad_range_method s"
      using Inr by (cases st; auto simp: choice_arg_rejects)+
    with Cons.prems have "Opt_range_method s \<in> set xs \<or> Opt_grad_range_method s \<in> set xs"
      by auto
    from Cons.IH [OF this] Inr show ?thesis by simp
  qed
qed

lemma parse_args_range_method:
  assumes "Opt_range_method s \<in> set argv \<or> Opt_grad_range_method s \<in> set argv"
  shows "\<exists>m. parse_args cv argv = Inl (ArgumentError m)"
proof -
  from parse_opts_range_method [OF assms] obtain e where
    e: "parse_opts cv argv (defaults, False) = Inl e" by blast
  then have "parse_args cv argv = Inl e" by (simp add: parse_args_def)
  with parse_args_error [of cv argv e] show ?thesis by auto
qed

lemma parse_opts_append:
  "parse_opts cv (xs @ ys) st =
     (case parse_opts cv xs st of Inl e \<Rightarrow> Inl e | Inr st' \<Rightarrow> parse_opts cv ys st')"
  by (induction xs arbitrary: st) (auto split: sum.splits)

lemma parse_opt_keeps_bitwidth_data:
  "parse_opt cv x (a, seen) = Inr (a', seen') \<Longrightarrow> (\<forall>s. x \<noteq> Opt_bitwidth_data s) \<Longrightarrow>
     bitwidth_data a' = bitwidth_data a"
  by (cases x) (auto split: sum.splits)

lemma parse_opt_keeps_bitwidth_grad:
  "parse_opt cv x (a, seen) = Inr (a', seen') \<Longrightarrow> (\<forall>s. x \<noteq> Opt_bitwidth_grad s) \<Longrightarrow>
     bitwidth_grad a' = bitwidth_grad a"
  by (cases x) (auto split: sum.splits)

lemma parse_opt_keeps_fix_grad:
  "parse_opt cv x (a, seen) = Inr (a', seen') \<Longrightarrow> x \<noteq> Opt_fix_grad \<Longrightarrow>
     fix_grad a' = fix_grad a"
  by (cases x) (auto split: sum.splits)

lemma parse_opts_keeps_bitwidth_data:
  "parse_opts cv xs (a, seen) = Inr (a', seen') \<Longrightarrow> (\<forall>s. Opt_bitwidth_data s \<notin> set xs) \<Longrightarrow>
     bitwidth_data a' = bitwidth_data a"
proof (induction xs arbitrary: a seen)
  case Nil
  then show ?case by simp
next
  case (Cons x xs)
  from Cons.prems(1) obtain a1 seen1 where
    x: "parse_opt cv x (a, seen) = Inr (a1, seen1)" and
    r: "parse_opts cv xs (a1, seen1) = Inr (a', seen')"
    by (cases "parse_opt cv x (a, seen)") auto
  from Cons.prems(2) have "\<forall>s. x \<noteq> Opt_bitwidth_data s" "\<forall>s. Opt_bitwidth_data s \<notin> set xs"
    by auto
  with Cons.IH [OF r] parse_opt_keeps_bitwidth_data [OF x] show ?case by simp
qed

lemma parse_opts_keeps_bitwidth_grad:
  "parse_opts cv xs (a, seen) = Inr (a', seen') \<Longrightarrow> (\<forall>s. Opt_bitwidth_grad s \<notin> set xs) \<Longrightarrow>
     bitwidth_grad a' = bitwidth_grad a"
proof (induction xs arbitrary: a seen)
  case Nil
  then show ?case by simp
next
  case (Cons x xs)
  from Cons.prems(1) obtain a1 seen1 where
    x: "parse_opt cv x (a, seen) = Inr (a1, seen1)" and
    r: "parse_opts cv xs (a1, seen1) = Inr (a', seen')"
    by (cases "parse_opt cv x (a, seen)") auto
  from Cons.prems(2) have "\<forall>s. x \<noteq> Opt_bitwidth_grad s" "\<forall>s. Opt_bitwidth_grad s \<notin> set xs"
    by auto
  with Cons.IH [OF r] parse_opt_keeps_bitwidth_grad [OF x] show ?case by simp
qed

lemma parse_opts_keeps_fix_grad:
  "parse_opts cv xs (a, seen) = Inr (a', seen') \<Longrightarrow> Opt_fix_grad \<notin> set xs \<Longrightarrow>
     fix_grad a' = fix_grad a"
proof (induction xs arbitrary: a seen)
  case Nil
  then show ?case by simp
next
  case (Cons x xs)
  from Cons.prems(1) obtain a1 seen1 where
    x: "parse_opt cv x (a, seen) = Inr (a1, seen1)" and
    r: "parse_opts cv xs (a1, seen1) = Inr (a', seen')"
    by (cases "parse_opt cv x (a, seen)") auto
  from Cons.prems(2) have "x \<noteq> Opt_fix_grad" "Opt_fix_grad \<notin> set xs" by auto
  with Cons.IH [OF r] parse_opt_keeps_fix_grad [OF x] show ?case by simp
qed

lemma parse_args_last_bitwidth_data:
  assumes "parse_args cv (pre @ Opt_bitwidth_data s # post) = Inr a"
    and "\<forall>s'. Opt_bitwidth_data s' \<notin> set post"
  shows "py_int cv s = Some (bitwidth_data a)"
proof -
  from assms(1) obtain seen where
    p: "parse_opts cv (pre @ Opt_bitwidth_data s # post) (defaults, False) = Inr (a, seen)"
    by (auto simp: parse_args_def split: sum.splits prod.splits if_splits)
  then obtain a1 seen1 where
    "parse_opts cv (Opt_bitwidth_data s # post) (a1, seen1) = Inr (a, seen)"
    by (auto simp: parse_opts_append split: sum.splits)
  then obtain n where n: "py_int cv s = Some n" and
    r: "parse_opts cv post (a1\<lparr>bitwidth_data := n\<rparr>, seen1) = Inr (a, seen)"
    by (auto simp: int_arg_def split: sum.splits option.splits)
  from parse_opts_keeps_bitwidth_data [OF r assms(2)] n show ?thesis by simp
qed

lemma parse_args_last_bitwidth_grad:
  assumes "parse_args cv (pre @ Opt_bitwidth_grad s # post) = Inr a"
    and "\<forall>s'. Opt_bitwidth_grad s' \<notin> set post"
  shows "py_int cv s = Some (bitwidth_grad a)"
proof -
  from assms(1) obtain seen where
    p: "parse_opts cv (pre @ Opt_bitwidth_grad s # post) (defaults, False) = Inr (a, seen)"
    by (auto simp: parse_args_def split: sum.splits prod.splits if_splits)
  then obtain a1 seen1 where
    "parse_opts cv (Opt_bitwidth_grad s # post) (a1, seen1) = Inr (a, seen)"
    by (auto simp: parse_opts_append split: sum.splits)
  then obtain n where n: "py_int cv s = Some n" and
    r: "parse_opts cv post (a1\<lparr>bitwidth_grad := n\<rparr>, seen1) = Inr (a, seen)"
    by (auto simp: int_arg_def split: sum.splits option.splits)
  from parse_opts_keeps_bitwidth_grad [OF r assms(2)] n show ?thesis by simp
qed

lemma parse_args_fix_grad_default:
  assumes "parse_args cv argv = Inr a" and "Opt_fix_grad \<notin> set argv"
  shows "\<not> fix_grad a"
proof -
  from assms(1) obtain seen where
    p: "parse_opts cv argv (defaults, False) = Inr (a, seen)"
    by (auto simp: parse_args_def split: sum.splits prod.splits if_splits)
  from parse_opts_keeps_fix_grad [OF p assms(2)] show ?thesis by (simp add: defaults_def)
qed

lemma FixNet_rejects_bitwidth:
  "bd \<le> 0 \<or> bg \<le> 0 \<Longrightarrow> FixNet ns fb fg rm grm bd bg = Inl ConfigError"
  by (simp add: FixNet_def)

subsection \<open>Traces of train and validate\<close>

lemma batch_frame_refl: "batch_frame w w"
  by (simp add: batch_frame_def)

lemma batch_frame_trans: "batch_frame w w1 \<Longrightarrow> batch_frame w1 w2 \<Longrightarrow> batch_frame w w2"
  by (simp add: batch_frame_def)

lemma train_batch_Raised:
  "train_batch env ep i ms w = Raised e t \<Longrightarrow>
     t = trace w @ [TrainBatch ep i (modules (model w))]"
  by (auto simp: train_batch_def Let_def split: sum.splits if_splits)

lemma train_batch_Returned:
  "train_batch env ep i ms w = Returned ms' w' \<Longrightarrow>
     trace w' = trace w @ [TrainBatch ep i (modules (model w))] \<and> batch_frame w w'"
  by (auto simp: train_batch_def Let_def batch_frame_def split: sum.splits if_splits)

lemma train_batches_out:
  "\<exists>k\<le>length js.
     trace_of (train_batches env ep js ms w)
       = trace w @ map (\<lambda>i. TrainBatch ep i (modules (model w))) (take k js)
     \<and> (\<forall>ms' w'. train_batches env ep js ms w = Returned ms' w' \<longrightarrow>
            k = length js \<and> batch_frame w w')"
proof (induction js arbitrary: ms w)
  case Nil
  then show ?case by (simp add: batch_frame_refl)
next
  case (Cons j js)
  show ?case
  proof (cases "train_batch env ep j ms w")
    case (Raised e t)
    from train_batch_Raised [OF Raised]
    have "trace_of (train_batches env ep (j # js) ms w)
        = trace w @ map (\<lambda>i. TrainBatch ep i (modules (model w))) (take 1 (j # js))"
      using Raised by simp
    moreover have "\<forall>ms' w'. train_batches env ep (j # js) ms w \<noteq> Returned ms' w'"
      using Raised by simp
    ultimately show ?thesis by (intro exI [of _ 1]) simp
  next
    case (Returned ms1 w1)
    from train_batch_Returned [OF Returned]
    have t1: "trace w1 = trace w @ [TrainBatch ep j (modules (model w))]"
      and f1: "batch_frame w w1" by simp_all
    from f1 have m1: "modules (model w1) = modules (model w)" by (simp add: batch_frame_def)
    from Cons.IH [of ms1 w1] obtain k where k: "k \<le> length js"
      and tk: "trace_of (train_batches env ep js ms1 w1)
         = trace w1 @ map (\<lambda>i. TrainBatch ep i (modules (model w1))) (take k js)"
      and rk: "\<forall>ms' w'. train_batches env ep js ms1 w1 = Returned ms' w' \<longrightarrow>
            k = length js \<and> batch_frame w1 w'"
      by blast
    have "trace_of (train_batches env ep (j # js) ms w)
        = trace w @ map (\<lambda>i. TrainBatch ep i (modules (model w))) (take (Suc k) (j # js))"
      using Returned tk t1 m1 by simp
    moreover have "\<forall>ms' w'. train_batches env ep (j # js) ms w = Returned ms' w' \<longrightarrow>
            Suc k = length (j # js) \<and> batch_frame w w'"
      using Returned rk f1 by (auto intro: batch_frame_trans)
    ultimately show ?thesis using k by (intro exI [of _ "Suc k"]) simp
  qed
qed

lemma validate_batch_Raised:
  "validate_batch env i ms w = Raised e t \<Longrightarrow>
     t = trace w @ [EvalBatch i (modules (model w))]"
  by (auto simp: validate_batch_def Let_def split: sum.splits if_splits)

lemma validate_batch_Returned:
  "validate_batch env i ms w = Returned ms' w' \<Longrightarrow>
     trace w' = trace w @ [EvalBatch i (modules (model w))] \<and> batch_frame w w'
     \<and> tensors (model w') = tensors (model w)"
  by (auto simp: validate_batch_def Let_def batch_frame_def split: sum.splits if_splits)

lemma validate_batches_out:
  "\<exists>k\<le>length js.
     trace_of (validate_batches env js ms w)
       = trace w @ map (\<lambda>i. EvalBatch i (modules (model w))) (take k js)
     \<and> (\<forall>ms' w'. validate_batches env js ms w = Returned ms' w' \<longrightarrow>
            k = length js \<and> batch_frame w w')"
proof (induction js arbitrary: ms w)
  case Nil
  then show ?case by (simp add: batch_frame_refl)
next
  case (Cons j js)
  show ?case
  proof (cases "validate_batch env j ms w")
    case (Raised e t)
    from validate_batch_Raised [OF Raised]
    have "trace_of (validate_batches env (j # js) ms w)
        = trace w @ map (\<lambda>i. EvalBatch i (modules (model w))) (take 1 (j # js))"
      using Raised by simp
    moreover have "\<forall>ms' w'. validate_batches env (j # js) ms w \<noteq> Returned ms' w'"
      using Raised by simp
    ultimately show ?thesis by (intro exI [of _ 1]) simp
  next
    case (Returned ms1 w1)
    from validate_batch_Returned [OF Returned]
    have t1: "trace w1 = trace w @ [EvalBatch j (modules (model w))]"
      and f1: "batch_frame w w1" by simp_all
    from f1 have m1: "modules (model w1) = modules (model w)" by (simp add: batch_frame_def)
    from Cons.IH [of ms1 w1] obtain k where k: "k \<le> length js"
      and tk: "trace_of (validate_batches env js ms1 w1)
         = trace w1 @ map (\<lambda>i. EvalBatch i (modules (model w1))) (take k js)"
      and rk: "\<forall>ms' w'. validate_batches env js ms1 w1 = Returned ms' w' \<longrightarrow>
            k = length js \<and> batch_frame w1 w'"
      by blast
    have "trace_of (validate_batches env (j # js) ms w)
        = trace w @ map (\<lambda>i. EvalBatch i (modules (model w))) (take (Suc k) (j # js))"
      using Returned tk t1 m1 by simp
    moreover have "\<forall>ms' w'. validate_batches env (j # js) ms w = Returned ms' w' \<longrightarrow>
            Suc k = length (j # js) \<and> batch_frame w w'"
      using Returned rk f1 by (auto intro: batch_frame_trans)
    ultimately show ?thesis using k by (intro exI [of _ "Suc k"]) simp
  qed
qed

text \<open>The policies after a mode-set call without overrides.\<close>

lemma set_fix_method_no_overrides:
  "m \<in> set (modules (set_fix_method method [] net)) \<Longrightarrow> p \<in> set (m_policies m) \<Longrightarrow>
     p_mode p = method"
  by (auto simp: set_fix_method_def mode_for_def)

lemma train_prelude:
  "trace (model_train (set_fix_method_train_ori w)) = trace w @ [SetFixMethod FIX_AUTO [], ModelTrain]"
  "modules (model (model_train (set_fix_method_train_ori w)))
     = modules (set_fix_method FIX_AUTO [] (model w))"
  "wargs (model_train (set_fix_method_train_ori w)) = wargs w"
  "optimizer (model_train (set_fix_method_train_ori w)) = optimizer w"
  "best_prec1 (model_train (set_fix_method_train_ori w)) = best_prec1 w"
  "cfg (model (model_train (set_fix_method_train_ori w))) = cfg (model w)"
  by (simp_all add: model_train_def set_fix_method_train_ori_def call_set_fix_method_def
        set_fix_method_def)

lemma train_cases:
  "train env ep w =
     (case train_batches env ep [0..<len_train_loader env] (AverageMeter_init, AverageMeter_init)
             (model_train (set_fix_method_train_ori w)) of
        Raised e t \<Rightarrow> Raised e t | Returned ms w3 \<Rightarrow> Returned () w3)"
  by (simp add: train_def Let_def)

lemma train_out:
  "\<exists>k\<le>len_train_loader env.
     trace_of (train env ep w)
       = trace w @ SetFixMethod FIX_AUTO [] # ModelTrain
           # map (\<lambda>i. TrainBatch ep i (modules (set_fix_method FIX_AUTO [] (model w)))) [0..<k]
     \<and> (\<forall>u w'. train env ep w = Returned u w' \<longrightarrow>
           k = len_train_loader env
           \<and> wargs w' = wargs w \<and> optimizer w' = optimizer w \<and> best_prec1 w' = best_prec1 w
           \<and> cfg (model w') = cfg (model w)
           \<and> modules (model w') = modules (set_fix_method FIX_AUTO [] (model w)))"
proof -
  define w2 where "w2 = model_train (set_fix_method_train_ori w)"
  define out where "out = train_batches env ep [0..<len_train_loader env]
                (AverageMeter_init, AverageMeter_init) w2"
  note pre = train_prelude [of w, folded w2_def]
  from train_batches_out [of "[0..<len_train_loader env]" env ep
      "(AverageMeter_init, AverageMeter_init)" w2, folded out_def]
  obtain k where k0: "k \<le> length [0..<len_train_loader env]"
    and tk: "trace_of out
         = trace w2 @ map (\<lambda>i. TrainBatch ep i (modules (model w2)))
             (take k [0..<len_train_loader env])"
    and rk: "\<forall>ms' w'. out = Returned ms' w' \<longrightarrow>
            k = length [0..<len_train_loader env] \<and> batch_frame w2 w'"
    by blast
  from k0 have k: "k \<le> len_train_loader env" by simp
  have tc: "train env ep w = (case out of Raised e t \<Rightarrow> Raised e t | Returned ms w3 \<Rightarrow> Returned () w3)"
    unfolding out_def w2_def by (rule train_cases)
  have tr: "trace_of (train env ep w) = trace_of out"
    unfolding tc by (cases out) simp_all
  have tk': "take k [0..<len_train_loader env] = [0..<k]" using k by simp
  have A: "trace_of (train env ep w)
       = trace w @ SetFixMethod FIX_AUTO [] # ModelTrain
           # map (\<lambda>i. TrainBatch ep i (modules (set_fix_method FIX_AUTO [] (model w)))) [0..<k]"
    by (simp add: tr tk pre tk')
  have B: "\<forall>u w'. train env ep w = Returned u w' \<longrightarrow>
           k = len_train_loader env
           \<and> wargs w' = wargs w \<and> optimizer w' = optimizer w \<and> best_prec1 w' = best_prec1 w
           \<and> cfg (model w') = cfg (model w)
           \<and> modules (model w') = modules (set_fix_method FIX_AUTO [] (model w))"
  proof (intro allI impI)
    fix u w' assume r: "train env ep w = Returned u w'"
    then obtain ms' where "out = Returned ms' w'"
      unfolding tc by (cases out) simp_all
    with rk have "k = length [0..<len_train_loader env]" and "batch_frame w2 w'" by blast+
    then show "k = len_train_loader env
           \<and> wargs w' = wargs w \<and> optimizer w' = optimizer w \<and> best_prec1 w' = best_prec1 w
           \<and> cfg (model w') = cfg (model w)
           \<and> modules (model w') = modules (set_fix_method FIX_AUTO [] (model w))"
      using pre by (simp add: batch_frame_def)
  qed
  from k A B show ?thesis by blast
qed

lemma validate_prelude:
  "trace (model_eval (set_fix_method_eval_ori w)) = trace w @ [SetFixMethod FIX_FIXED [], ModelEval]"
  "modules (model (model_eval (set_fix_method_eval_ori w)))
     = modules (set_fix_method FIX_FIXED [] (model w))"
  "wargs (model_eval (set_fix_method_eval_ori w)) = wargs w"
  "optimizer (model_eval (set_fix_method_eval_ori w)) = optimizer w"
  "best_prec1 (model_eval (set_fix_method_eval_ori w)) = best_prec1 w"
  "cfg (model (model_eval (set_fix_method_eval_ori w))) = cfg (model w)"
  by (simp_all add: model_eval_def set_fix_method_eval_ori_def call_set_fix_method_def
        set_fix_method_def)

lemma validate_cases:
  "validate env w =
     (case validate_batches env [0..<len_val_loader env] (AverageMeter_init, AverageMeter_init)
             (model_eval (set_fix_method_eval_ori w)) of
        Raised e t \<Rightarrow> Raised e t
      | Returned ms w3 \<Rightarrow>
          Returned (avg (snd ms))
            (w3\<lparr>trace := trace w3 @ [PrintPrec (avg (snd ms)) (best_prec1 w3)]\<rparr>))"
  by (simp add: validate_def Let_def)

lemma validate_out:
  "\<exists>k\<le>len_val_loader env. \<exists>tail.
     trace_of (validate env w)
       = trace w @ SetFixMethod FIX_FIXED [] # ModelEval
           # map (\<lambda>i. EvalBatch i (modules (set_fix_method FIX_FIXED [] (model w)))) [0..<k] @ tail
     \<and> (\<forall>e t. validate env w = Raised e t \<longrightarrow> tail = [])
     \<and> (\<forall>p w'. validate env w = Returned p w' \<longrightarrow>
           k = len_val_loader env \<and> tail = [PrintPrec p (best_prec1 w)]
           \<and> wargs w' = wargs w \<and> optimizer w' = optimizer w \<and> best_prec1 w' = best_prec1 w
           \<and> cfg (model w') = cfg (model w)
           \<and> modules (model w') = modules (set_fix_method FIX_FIXED [] (model w)))"
proof -
  define w2 where "w2 = model_eval (set_fix_method_eval_ori w)"
  define out where "out = validate_batches env [0..<len_val_loader env]
                (AverageMeter_init, AverageMeter_init) w2"
  define M where "M = modules (set_fix_method FIX_FIXED [] (model w))"
  note pre = validate_prelude [of w, folded w2_def M_def]
  from validate_batches_out [of "[0..<len_val_loader env]" env
      "(AverageMeter_init, AverageMeter_init)" w2, folded out_def]
  obtain k where k0: "k \<le> length [0..<len_val_loader env]"
    and tk: "trace_of out
         = trace w2 @ map (\<lambda>i. EvalBatch i (modules (model w2)))
             (take k [0..<len_val_loader env])"
    and rk: "\<forall>ms' w'. out = Returned ms' w' \<longrightarrow>
            k = length [0..<len_val_loader env] \<and> batch_frame w2 w'"
    by blast
  from k0 have k: "k \<le> len_val_loader env" by simp
  have tk': "take k [0..<len_val_loader env] = [0..<k]" using k by simp
  have tb: "trace_of out = trace w @ SetFixMethod FIX_FIXED [] # ModelEval
           # map (\<lambda>i. EvalBatch i M) [0..<k]"
    by (simp add: tk pre tk')
  have tc: "validate env w = (case out of Raised e t \<Rightarrow> Raised e t
      | Returned ms w3 \<Rightarrow>
          Returned (avg (snd ms))
            (w3\<lparr>trace := trace w3 @ [PrintPrec (avg (snd ms)) (best_prec1 w3)]\<rparr>))"
    unfolding out_def w2_def by (rule validate_cases)
  show ?thesis
  proof (cases out)
    case (Raised e t)
    then have v: "validate env w = Raised e t" unfolding tc by simp
    have "trace_of (validate env w) = trace w @ SetFixMethod FIX_FIXED [] # ModelEval
           # map (\<lambda>i. EvalBatch i M) [0..<k] @ []"
      using tb Raised v by simp
    with v k show ?thesis unfolding M_def by (intro exI [of _ k] exI [of _ "[]"]) simp
  next
    case (Returned ms w3)
    with rk have kn: "k = len_val_loader env" and fr: "batch_frame w2 w3" by simp_all
    let ?p = "avg (snd ms)"
    let ?w' = "w3\<lparr>trace := trace w3 @ [PrintPrec ?p (best_prec1 w3)]\<rparr>"
    have v: "validate env w = Returned ?p ?w'" unfolding tc Returned by simp
    have b3: "best_prec1 w3 = best_prec1 w" using fr pre by (simp add: batch_frame_def)
    have "trace_of (validate env w) = trace w @ SetFixMethod FIX_FIXED [] # ModelEval
           # map (\<lambda>i. EvalBatch i M) [0..<k] @ [PrintPrec ?p (best_prec1 w)]"
      using tb Returned v b3 by simp
    moreover have "wargs ?w' = wargs w \<and> optimizer ?w' = optimizer w
           \<and> best_prec1 ?w' = best_prec1 w \<and> cfg (model ?w') = cfg (model w)
           \<and> modules (model ?w') = M"
      using fr pre by (simp add: batch_frame_def)
    ultimately show ?thesis using v k kn unfolding M_def
      by (intro exI [of _ k] exI [of _ "[PrintPrec ?p (best_prec1 w)]"]) simp
  qed
qed

subsection \<open>Modes during training and evaluation\<close>

lemma set_fix_method_roles:
  "map (\<lambda>m. (m_type m, map p_role (m_policies m))) (modules (set_fix_method method by_type net))
     = map (\<lambda>m. (m_type m, map p_role (m_policies m))) (modules net)"
  by (simp add: set_fix_method_def comp_def)

lemma train_batches_Raised_grows:
  "train_batches env ep js ms w = Raised e t \<Longrightarrow> length (trace w) < length t"
proof (induction js arbitrary: ms w)
  case Nil
  then show ?case by simp
next
  case (Cons j js)
  show ?case
  proof (cases "train_batch env ep j ms w")
    case (Raised e' t')
    with Cons.prems have "t = t'" by simp
    with train_batch_Raised [OF Raised] show ?thesis by simp
  next
    case (Returned ms1 w1)
    with Cons.prems have "train_batches env ep js ms1 w1 = Raised e t" by simp
    from Cons.IH [OF this] train_batch_Returned [OF Returned] show ?thesis by simp
  qed
qed

lemma validate_batches_Raised_grows:
  "validate_batches env js ms w = Raised e t \<Longrightarrow> length (trace w) < length t"
proof (induction js arbitrary: ms w)
  case Nil
  then show ?case by simp
next
  case (Cons j js)
  show ?case
  proof (cases "validate_batch env j ms w")
    case (Raised e' t')
    with Cons.prems have "t = t'" by simp
    with validate_batch_Raised [OF Raised] show ?thesis by simp
  next
    case (Returned ms1 w1)
    with Cons.prems have "validate_batches env js ms1 w1 = Raised e t" by simp
    from Cons.IH [OF this] validate_batch_Returned [OF Returned] show ?thesis by simp
  qed
qed

lemma train_Raised_grows:
  assumes "train env ep w = Raised e t"
  shows "length (trace w) + 2 < length t"
proof -
  from assms have "train_batches env ep [0..<len_train_loader env]
      (AverageMeter_init, AverageMeter_init) (model_train (set_fix_method_train_ori w)) = Raised e t"
    unfolding train_cases by (simp split: outcome.splits)
  from train_batches_Raised_grows [OF this] show ?thesis by (simp add: train_prelude(1))
qed

lemma validate_Raised_grows:
  assumes "validate env w = Raised e t"
  shows "length (trace w) + 2 < length t"
proof -
  from assms have "validate_batches env [0..<len_val_loader env]
      (AverageMeter_init, AverageMeter_init) (model_eval (set_fix_method_eval_ori w)) = Raised e t"
    unfolding validate_cases by (simp split: outcome.splits)
  from validate_batches_Raised_grows [OF this] show ?thesis by (simp add: validate_prelude(1))
qed

lemma train_phase:
  "\<exists>k\<le>len_train_loader env.
      trace_of (train env ep w)
        = trace w @ SetFixMethod FIX_AUTO [] # ModelTrain
            # map (\<lambda>i. TrainBatch ep i (modules (set_fix_method FIX_AUTO [] (model w)))) [0..<k]
      \<and> (\<forall>e t. train env ep w = Raised e t \<longrightarrow> 0 < k)
      \<and> (\<forall>u w'. train env ep w = Returned u w' \<longrightarrow>
            k = len_train_loader env
            \<and> modules (model w') = modules (set_fix_method FIX_AUTO [] (model w)))"
proof -
  define M where "M = modules (set_fix_method FIX_AUTO [] (model w))"
  from train_out [of env ep w, folded M_def] obtain k where
    k: "k \<le> len_train_loader env" and
    t: "trace_of (train env ep w)
       = trace w @ SetFixMethod FIX_AUTO [] # ModelTrain # map (\<lambda>i. TrainBatch ep i M) [0..<k]"
    and rf: "\<forall>u w'. train env ep w = Returned u w' \<longrightarrow>
           k = len_train_loader env
           \<and> wargs w' = wargs w \<and> optimizer w' = optimizer w \<and> best_prec1 w' = best_prec1 w
           \<and> cfg (model w') = cfg (model w) \<and> modules (model w') = M"
    by (elim exE conjE)
  have a: "\<forall>e t. train env ep w = Raised e t \<longrightarrow> 0 < k"
  proof (intro allI impI)
    fix e t' assume r: "train env ep w = Raised e t'"
    with t have "length t' = length (trace w) + 2 + k" by simp
    with train_Raised_grows [OF r] show "0 < k" by simp
  qed
  have b: "\<forall>u w'. train env ep w = Returned u w' \<longrightarrow>
            k = len_train_loader env \<and> modules (model w') = M"
  proof (intro allI impI)
    fix u w' assume "train env ep w = Returned u w'"
    with rf show "k = len_train_loader env \<and> modules (model w') = M" by simp
  qed
  from k t a b show ?thesis unfolding M_def by (intro exI [of _ k] conjI)
qed

lemma validate_phase:
  "\<exists>k\<le>len_val_loader env. \<exists>tail.
      trace_of (validate env w)
        = trace w @ SetFixMethod FIX_FIXED [] # ModelEval
            # map (\<lambda>i. EvalBatch i (modules (set_fix_method FIX_FIXED [] (model w)))) [0..<k] @ tail
      \<and> (\<forall>e t. validate env w = Raised e t \<longrightarrow> 0 < k \<and> tail = [])
      \<and> (\<forall>p w'. validate env w = Returned p w' \<longrightarrow>
            k = len_val_loader env \<and> tail = [PrintPrec p (best_prec1 w)]
            \<and> modules (model w') = modules (set_fix_method FIX_FIXED [] (model w)))"
proof -
  define M where "M = modules (set_fix_method FIX_FIXED [] (model w))"
  from validate_out [of env w, folded M_def] obtain k tail where
    k: "k \<le> len_val_loader env" and
    t: "trace_of (validate env w)
        = trace w @ SetFixMethod FIX_FIXED [] # ModelEval # map (\<lambda>i. EvalBatch i M) [0..<k] @ tail" and
    r1: "\<forall>e t. validate env w = Raised e t \<longrightarrow> tail = []" and
    r2f: "\<forall>p w'. validate env w = Returned p w' \<longrightarrow>
           k = len_val_loader env \<and> tail = [PrintPrec p (best_prec1 w)]
           \<and> wargs w' = wargs w \<and> optimizer w' = optimizer w \<and> best_prec1 w' = best_prec1 w
           \<and> cfg (model w') = cfg (model w) \<and> modules (model w') = M"
    by (elim exE conjE)
  have a: "\<forall>e t. validate env w = Raised e t \<longrightarrow> 0 < k \<and> tail = []"
  proof (intro allI impI)
    fix e t' assume r: "validate env w = Raised e t'"
    with r1 have tl: "tail = []" by blast
    with t r have "length t' = length (trace w) + 2 + k" by simp
    with validate_Raised_grows [OF r] tl show "0 < k \<and> tail = []" by simp
  qed
  have b: "\<forall>p w'. validate env w = Returned p w' \<longrightarrow>
            k = len_val_loader env \<and> tail = [PrintPrec p (best_prec1 w)] \<and> modules (model w') = M"
  proof (intro allI impI)
    fix p w' assume "validate env w = Returned p w'"
    with r2f show "k = len_val_loader env \<and> tail = [PrintPrec p (best_prec1 w)]
        \<and> modules (model w') = M" by simp
  qed
  from k t a b show ?thesis unfolding M_def by (intro exI [of _ k] exI [of _ tail] conjI)
qed

text \<open>
  Claim C2. A call of \<open>train\<close> first issues the mode-set call with \<open>FIX_AUTO\<close> and
  no override, then \<open>model.train()\<close>, and only then processes batches; every batch is
  processed with the modules the mode-set call left, whose policies are all in mode
  \<open>FIX_AUTO\<close>. A call that raises does so in a batch; a call that returns has
  processed every batch of the loader and returns a model with these modules. A call
  of \<open>validate\<close> first issues the mode-set call with \<open>FIX_FIXED\<close> and no override,
  then \<open>model.eval()\<close>, then processes batches, every one with the modules the
  mode-set call left, whose policies are all in mode \<open>FIX_FIXED\<close>; a call that raises
  does so in a batch, and a call that returns has processed every batch, ends with the
  summary line and returns a model with these modules. The mode-set call keeps the
  modules and the roles of their policies.
\<close>

theorem mode_set_before_batches:
  "(\<exists>k\<le>len_train_loader env.
      trace_of (train env ep w)
        = trace w @ SetFixMethod FIX_AUTO [] # ModelTrain
            # map (\<lambda>i. TrainBatch ep i (modules (set_fix_method FIX_AUTO [] (model w)))) [0..<k]
      \<and> (\<forall>e t. train env ep w = Raised e t \<longrightarrow> 0 < k)
      \<and> (\<forall>u w'. train env ep w = Returned u w' \<longrightarrow>
            k = len_train_loader env
            \<and> modules (model w') = modules (set_fix_method FIX_AUTO [] (model w))))
   \<and> (\<forall>m \<in> set (modules (set_fix_method FIX_AUTO [] (model w))).
         \<forall>p \<in> set (m_policies m). p_mode p = FIX_AUTO)
   \<and> (\<exists>k\<le>len_val_loader env. \<exists>tail.
      trace_of (validate env w)
        = trace w @ SetFixMethod FIX_FIXED [] # ModelEval
            # map (\<lambda>i. EvalBatch i (modules (set_fix_method FIX_FIXED [] (model w)))) [0..<k] @ tail
      \<and> (\<forall>e t. validate env w = Raised e t \<longrightarrow> 0 < k \<and> tail = [])
      \<and> (\<forall>p w'. validate env w = Returned p w' \<longrightarrow>
            k = len_val_loader env \<and> tail = [PrintPrec p (best_prec1 w)]
            \<and> modules (model w') = modules (set_fix_method FIX_FIXED [] (model w))))
   \<and> (\<forall>m \<in> set (modules (set_fix_method FIX_FIXED [] (model w))).
         \<forall>p \<in> set (m_policies m). p_mode p = FIX_FIXED)
   \<and> (\<forall>method.
         map (\<lambda>m. (m_type m, map p_role (m_policies m))) (modules (set_fix_method method [] (model w)))
           = map (\<lambda>m. (m_type m, map p_role (m_policies m))) (modules (model w)))"
proof (intro conjI)
  show "\<exists>k\<le>len_train_loader env.
      trace_of (train env ep w)
        = trace w @ SetFixMethod FIX_AUTO [] # ModelTrain
            # map (\<lambda>i. TrainBatch ep i (modules (set_fix_method FIX_AUTO [] (model w)))) [0..<k]
      \<and> (\<forall>e t. train env ep w = Raised e t \<longrightarrow> 0 < k)
      \<and> (\<forall>u w'. train env ep w = Returned u w' \<longrightarrow>
            k = len_train_loader env
            \<and> modules (model w') = modules (set_fix_method FIX_AUTO [] (model w)))"
    by (rule train_phase)
  show "\<forall>m \<in> set (modules (set_fix_method FIX_AUTO [] (model w))).
         \<forall>p \<in> set (m_policies m). p_mode p = FIX_AUTO"
    using set_fix_method_no_overrides by blast
  show "\<exists>k\<le>len_val_loader env. \<exists>tail.
      trace_of (validate env w)
        = trace w @ SetFixMethod FIX_FIXED [] # ModelEval
            # map (\<lambda>i. EvalBatch i (modules (set_fix_method FIX_FIXED [] (model w)))) [0..<k] @ tail
      \<and> (\<forall>e t. validate env w = Raised e t \<longrightarrow> 0 < k \<and> tail = [])
      \<and> (\<forall>p w'. validate env w = Returned p w' \<longrightarrow>
            k = len_val_loader env \<and> tail = [PrintPrec p (best_prec1 w)]
            \<and> modules (model w') = modules (set_fix_method FIX_FIXED [] (model w)))"
    by (rule validate_phase)
  show "\<forall>m \<in> set (modules (set_fix_method FIX_FIXED [] (model w))).
         \<forall>p \<in> set (m_policies m). p_mode p = FIX_FIXED"
    using set_fix_method_no_overrides by blast
  show "\<forall>method.
         map (\<lambda>m. (m_type m, map p_role (m_policies m))) (modules (set_fix_method method [] (model w)))
           = map (\<lambda>m. (m_type m, map p_role (m_policies m))) (modules (model w))"
    by (simp add: set_fix_method_roles)
qed

lemmas run_defs =
  train_def validate_def Let_def set_fix_method_train_ori_def set_fix_method_eval_ori_def
  call_set_fix_method_def set_fix_method_def mode_for_def model_train_def model_eval_def
  train_batch_def validate_batch_def update_def AverageMeter_init_def reset_def
  example_env_def example_world_def defaults_def

lemma example_train_returns: "\<exists>w'. train example_env 0 example_world = Returned () w'"
  by (simp add: run_defs)

lemma example_validate_returns: "\<exists>p w'. validate example_env example_world = Returned p w'"
  by (simp add: run_defs)

lemma example_modes:
  "modes_of (modules (set_fix_method md [] (model example_world)))
     = [(''BatchNorm2d_fix'', [(''weight'', md), (''running_mean'', md)])]"
  by (simp add: modes_of_def set_fix_method_def mode_for_def example_world_def)

theorem mode_set_before_batches_witness:
  "(\<exists>w'. train example_env 0 example_world = Returned () w'
       \<and> trace w' = [SetFixMethod FIX_AUTO [], ModelTrain, TrainBatch 0 0 (modules (model w'))]
       \<and> modes_of (modules (model w'))
           = [(''BatchNorm2d_fix'', [(''weight'', FIX_AUTO), (''running_mean'', FIX_AUTO)])])
   \<and> (\<exists>p w'. validate example_env example_world = Returned p w'
       \<and> trace w' = [SetFixMethod FIX_FIXED [], ModelEval, EvalBatch 0 (modules (model w')),
                     PrintPrec p 90]
       \<and> modes_of (modules (model w'))
           = [(''BatchNorm2d_fix'', [(''weight'', FIX_FIXED), (''running_mean'', FIX_FIXED)])])"
proof -
  note t = mode_set_before_batches [of example_env 0 example_world]
  have n: "len_train_loader example_env = 1" "len_val_loader example_env = 1"
    "trace example_world = []" "best_prec1 example_world = 90"
    by (simp_all add: example_env_def example_world_def)
  from example_train_returns obtain w1 where
    r1: "train example_env 0 example_world = Returned () w1" by blast
  from t [THEN conjunct1] obtain k where
    tk: "trace_of (train example_env 0 example_world)
        = trace example_world @ SetFixMethod FIX_AUTO [] # ModelTrain
            # map (\<lambda>i. TrainBatch 0 i (modules (set_fix_method FIX_AUTO [] (model example_world))))
                [0..<k]" and
    rk: "\<forall>u w'. train example_env 0 example_world = Returned u w' \<longrightarrow>
            k = len_train_loader example_env
            \<and> modules (model w') = modules (set_fix_method FIX_AUTO [] (model example_world))"
    by (elim exE conjE)
  from rk r1 have k1: "k = 1"
    and m1: "modules (model w1) = modules (set_fix_method FIX_AUTO [] (model example_world))"
    by (simp_all add: n)
  from tk r1 have t1: "trace w1 = [SetFixMethod FIX_AUTO [], ModelTrain,
      TrainBatch 0 0 (modules (model w1))]"
    by (simp add: k1 m1 n)
  have A: "\<exists>w'. train example_env 0 example_world = Returned () w'
       \<and> trace w' = [SetFixMethod FIX_AUTO [], ModelTrain, TrainBatch 0 0 (modules (model w'))]
       \<and> modes_of (modules (model w'))
           = [(''BatchNorm2d_fix'', [(''weight'', FIX_AUTO), (''running_mean'', FIX_AUTO)])]"
    using r1 t1 m1 example_modes [of FIX_AUTO] by (intro exI [of _ w1]) simp
  from example_validate_returns obtain p w2 where
    r2: "validate example_env example_world = Returned p w2" by blast
  from t [THEN conjunct2, THEN conjunct2, THEN conjunct1] obtain k' tail where
    tv: "trace_of (validate example_env example_world)
        = trace example_world @ SetFixMethod FIX_FIXED [] # ModelEval
            # map (\<lambda>i. EvalBatch i (modules (set_fix_method FIX_FIXED [] (model example_world))))
                [0..<k'] @ tail" and
    rv: "\<forall>p w'. validate example_env example_world = Returned p w' \<longrightarrow>
            k' = len_val_loader example_env \<and> tail = [PrintPrec p (best_prec1 example_world)]
            \<and> modules (model w') = modules (set_fix_method FIX_FIXED [] (model example_world))"
    by (elim exE conjE)
  from rv r2 have k2: "k' = 1" and tl: "tail = [PrintPrec p 90]"
    and m2: "modules (model w2) = modules (set_fix_method FIX_FIXED [] (model example_world))"
    by (simp_all add: n)
  from tv r2 have t2: "trace w2 = [SetFixMethod FIX_FIXED [], ModelEval,
      EvalBatch 0 (modules (model w2)), PrintPrec p 90]"
    by (simp add: k2 tl m2 n)
  have B: "\<exists>p w'. validate example_env example_world = Returned p w'
       \<and> trace w' = [SetFixMethod FIX_FIXED [], ModelEval, EvalBatch 0 (modules (model w')),
                     PrintPrec p 90]
       \<and> modes_of (modules (model w'))
           = [(''BatchNorm2d_fix'', [(''weight'', FIX_FIXED), (''running_mean'', FIX_FIXED)])]"
    using r2 t2 m2 example_modes [of FIX_FIXED] by (intro exI [of _ p] exI [of _ w2]) simp
  from A B show ?thesis by (rule conjI)
qed

lemma override_train_running:
  "r \<in> {''running_mean'', ''running_var''} \<Longrightarrow>
     mode_for FIX_AUTO
       [(''BatchNorm2d_fix'',
         [(''weight'', FIX_AUTO), (''bias'', FIX_AUTO),
          (''running_mean'', FIX_NONE), (''running_var'', FIX_NONE)])] ''BatchNorm2d_fix'' r = FIX_NONE"
  by (auto simp: mode_for_def)

lemma override_eval_running:
  "r \<in> {''running_mean'', ''running_var''} \<Longrightarrow>
     mode_for FIX_FIXED
       [(''BatchNorm2d_fix'',
         [(''weight'', FIX_FIXED), (''bias'', FIX_FIXED),
          (''running_mean'', FIX_AUTO), (''running_var'', FIX_AUTO)])] ''BatchNorm2d_fix'' r = FIX_AUTO"
  by (auto simp: mode_for_def)

lemma set_fix_method_mode:
  "m \<in> set (modules (set_fix_method method by_type net)) \<Longrightarrow> p \<in> set (m_policies m) \<Longrightarrow>
     p_mode p = mode_for method by_type (m_type m) (p_role p)"
  by (auto simp: set_fix_method_def)

lemma set_fix_method_train_running:
  assumes "m \<in> set (modules (model (set_fix_method_train w)))"
    and "m_type m = ''BatchNorm2d_fix''" and "p \<in> set (m_policies m)"
    and "p_role p \<in> {''running_mean'', ''running_var''}"
  shows "p_mode p = FIX_NONE"
proof -
  from assms(1) have "m \<in> set (modules (set_fix_method FIX_AUTO
       [(''BatchNorm2d_fix'',
         [(''weight'', FIX_AUTO), (''bias'', FIX_AUTO),
          (''running_mean'', FIX_NONE), (''running_var'', FIX_NONE)])] (model w)))"
    by (simp add: set_fix_method_train_def call_set_fix_method_def)
  from set_fix_method_mode [OF this assms(3)] show ?thesis
    unfolding assms(2) by (simp only: override_train_running [OF assms(4)])
qed

lemma set_fix_method_eval_running:
  assumes "m \<in> set (modules (model (set_fix_method_eval w)))"
    and "m_type m = ''BatchNorm2d_fix''" and "p \<in> set (m_policies m)"
    and "p_role p \<in> {''running_mean'', ''running_var''}"
  shows "p_mode p = FIX_AUTO"
proof -
  from assms(1) have "m \<in> set (modules (set_fix_method FIX_FIXED
       [(''BatchNorm2d_fix'',
         [(''weight'', FIX_FIXED), (''bias'', FIX_FIXED),
          (''running_mean'', FIX_AUTO), (''running_var'', FIX_AUTO)])] (model w)))"
    by (simp add: set_fix_method_eval_def call_set_fix_method_def)
  from set_fix_method_mode [OF this assms(3)] show ?thesis
    unfolding assms(2) by (simp only: override_eval_running [OF assms(4)])
qed

lemma train_batch_events_auto:
  assumes "trace_of (train env ep w) = trace w @ evs"
    and "TrainBatch ep' i ms \<in> set evs" and "m \<in> set ms" and "p \<in> set (m_policies m)"
  shows "p_mode p = FIX_AUTO"
proof -
  from train_out [of env ep w] obtain k where
    "trace_of (train env ep w)
       = trace w @ SetFixMethod FIX_AUTO [] # ModelTrain
           # map (\<lambda>i. TrainBatch ep i (modules (set_fix_method FIX_AUTO [] (model w)))) [0..<k]"
    by blast
  with assms(1) have "evs = SetFixMethod FIX_AUTO [] # ModelTrain
           # map (\<lambda>i. TrainBatch ep i (modules (set_fix_method FIX_AUTO [] (model w)))) [0..<k]"
    by simp
  with assms(2) have "ms = modules (set_fix_method FIX_AUTO [] (model w))" by auto
  with assms(3,4) show ?thesis by (simp add: set_fix_method_no_overrides)
qed

lemma validate_batch_events_fixed:
  assumes "trace_of (validate env w) = trace w @ evs"
    and "EvalBatch i ms \<in> set evs" and "m \<in> set ms" and "p \<in> set (m_policies m)"
  shows "p_mode p = FIX_FIXED"
proof -
  from validate_out [of env w] obtain k tail where
    t: "trace_of (validate env w)
        = trace w @ SetFixMethod FIX_FIXED [] # ModelEval
            # map (\<lambda>i. EvalBatch i (modules (set_fix_method FIX_FIXED [] (model w)))) [0..<k] @ tail" and
    r1: "\<forall>e t. validate env w = Raised e t \<longrightarrow> tail = []" and
    r2: "\<forall>p w'. validate env w = Returned p w' \<longrightarrow> tail = [PrintPrec p (best_prec1 w)]"
    by blast
  have tl: "tail = [] \<or> (\<exists>p. tail = [PrintPrec p (best_prec1 w)])"
    using r1 r2 by (cases "validate env w") auto
  from t assms(1) have "evs = SetFixMethod FIX_FIXED [] # ModelEval
            # map (\<lambda>i. EvalBatch i (modules (set_fix_method FIX_FIXED [] (model w)))) [0..<k] @ tail"
    by simp
  with assms(2) tl have "ms = modules (set_fix_method FIX_FIXED [] (model w))" by auto
  with assms(3,4) show ?thesis by (simp add: set_fix_method_no_overrides)
qed

lemma trace_extends:
  "\<exists>evs. trace_of (train env ep w) = trace w @ evs"
  "\<exists>evs. trace_of (validate env w) = trace w @ evs"
  using train_out [of env ep w] validate_out [of env w] by blast+

text \<open>
  Claim C1, as amended. In every training phase as the driver runs it, the policies of a
  batch normalization layer's running statistics (\<open>running_mean\<close>, \<open>running_var\<close>)
  are in mode \<open>FIX_AUTO\<close> while the batches are processed, like every other policy:
  \<open>train\<close> issues the mode-set call of \<open>_set_fix_method_train_ori\<close>, which has no
  override. In every evaluation phase they are in mode \<open>FIX_FIXED\<close>, so they are
  quantized. The exemption (\<open>FIX_NONE\<close> for the running statistics while training,
  \<open>FIX_AUTO\<close> at evaluation) is what the routines \<open>_set_fix_method_train\<close> and
  \<open>_set_fix_method_eval\<close> set; the driver defines them and calls neither.
\<close>

theorem batchnorm_running_statistics_modes:
  "(\<exists>evs. trace_of (train env ep w) = trace w @ evs
      \<and> (\<forall>ep' i ms m p. TrainBatch ep' i ms \<in> set evs \<and> m \<in> set ms
            \<and> m_type m = ''BatchNorm2d_fix'' \<and> p \<in> set (m_policies m)
            \<and> p_role p \<in> {''running_mean'', ''running_var''} \<longrightarrow> p_mode p = FIX_AUTO))
   \<and> (\<exists>evs. trace_of (validate env w) = trace w @ evs
      \<and> (\<forall>i ms m p. EvalBatch i ms \<in> set evs \<and> m \<in> set ms
            \<and> m_type m = ''BatchNorm2d_fix'' \<and> p \<in> set (m_policies m)
            \<and> p_role p \<in> {''running_mean'', ''running_var''} \<longrightarrow> p_mode p = FIX_FIXED))
   \<and> (\<forall>m p. m \<in> set (modules (model (set_fix_method_train w)))
            \<and> m_type m = ''BatchNorm2d_fix'' \<and> p \<in> set (m_policies m)
            \<and> p_role p \<in> {''running_mean'', ''running_var''} \<longrightarrow> p_mode p = FIX_NONE)
   \<and> (\<forall>m p. m \<in> set (modules (model (set_fix_method_eval w)))
            \<and> m_type m = ''BatchNorm2d_fix'' \<and> p \<in> set (m_policies m)
            \<and> p_role p \<in> {''running_mean'', ''running_var''} \<longrightarrow> p_mode p = FIX_AUTO)"
proof (intro conjI)
  from trace_extends(1) [of env ep w] obtain evs where
    e: "trace_of (train env ep w) = trace w @ evs" by blast
  from train_batch_events_auto [OF e] e
  show "\<exists>evs. trace_of (train env ep w) = trace w @ evs
      \<and> (\<forall>ep' i ms m p. TrainBatch ep' i ms \<in> set evs \<and> m \<in> set ms
            \<and> m_type m = ''BatchNorm2d_fix'' \<and> p \<in> set (m_policies m)
            \<and> p_role p \<in> {''running_mean'', ''running_var''} \<longrightarrow> p_mode p = FIX_AUTO)"
    by blast
next
  from trace_extends(2) [of env w] obtain evs where
    e: "trace_of (validate env w) = trace w @ evs" by blast
  from validate_batch_events_fixed [OF e] e
  show "\<exists>evs. trace_of (validate env w) = trace w @ evs
      \<and> (\<forall>i ms m p. EvalBatch i ms \<in> set evs \<and> m \<in> set ms
            \<and> m_type m = ''BatchNorm2d_fix'' \<and> p \<in> set (m_policies m)
            \<and> p_role p \<in> {''running_mean'', ''running_var''} \<longrightarrow> p_mode p = FIX_FIXED)"
    by blast
next
  show "\<forall>m p. m \<in> set (modules (model (set_fix_method_train w)))
            \<and> m_type m = ''BatchNorm2d_fix'' \<and> p \<in> set (m_policies m)
            \<and> p_role p \<in> {''running_mean'', ''running_var''} \<longrightarrow> p_mode p = FIX_NONE"
    using set_fix_method_train_running by blast
next
  show "\<forall>m p. m \<in> set (modules (model (set_fix_method_eval w)))
            \<and> m_type m = ''BatchNorm2d_fix'' \<and> p \<in> set (m_policies m)
            \<and> p_role p \<in> {''running_mean'', ''running_var''} \<longrightarrow> p_mode p = FIX_AUTO"
    using set_fix_method_eval_running by blast
qed

theorem batchnorm_running_statistics_modes_witness:
  "(\<exists>evs. trace_of (train example_env 0 example_world) = trace example_world @ evs
      \<and> TrainBatch 0 0 (modules (set_fix_method FIX_AUTO [] (model example_world))) \<in> set evs
      \<and> p_mode (m_policies (hd (modules (set_fix_method FIX_AUTO [] (model example_world)))) ! 1)
          = FIX_AUTO)
   \<and> p_mode (m_policies (hd (modules (model (set_fix_method_train example_world)))) ! 1) = FIX_NONE
   \<and> p_mode (m_policies (hd (modules (model (set_fix_method_eval example_world)))) ! 1) = FIX_AUTO"
proof -
  note t = batchnorm_running_statistics_modes [of example_env 0 example_world]
  let ?snap = "modules (set_fix_method FIX_AUTO [] (model example_world))"
  let ?mt = "hd (modules (model (set_fix_method_train example_world)))"
  let ?me = "hd (modules (model (set_fix_method_eval example_world)))"
  have snap: "hd ?snap \<in> set ?snap" "m_type (hd ?snap) = ''BatchNorm2d_fix''"
      "m_policies (hd ?snap) ! 1 \<in> set (m_policies (hd ?snap))"
      "p_role (m_policies (hd ?snap) ! 1) \<in> {''running_mean'', ''running_var''}"
    by (simp_all add: set_fix_method_def example_world_def)
  have mt: "?mt \<in> set (modules (model (set_fix_method_train example_world)))"
      "m_type ?mt = ''BatchNorm2d_fix''"
      "m_policies ?mt ! 1 \<in> set (m_policies ?mt)"
      "p_role (m_policies ?mt ! 1) \<in> {''running_mean'', ''running_var''}"
    by (simp_all add: set_fix_method_train_def call_set_fix_method_def set_fix_method_def
        example_world_def)
  have me: "?me \<in> set (modules (model (set_fix_method_eval example_world)))"
      "m_type ?me = ''BatchNorm2d_fix''"
      "m_policies ?me ! 1 \<in> set (m_policies ?me)"
      "p_role (m_policies ?me ! 1) \<in> {''running_mean'', ''running_var''}"
    by (simp_all add: set_fix_method_eval_def call_set_fix_method_def set_fix_method_def
        example_world_def)
  from t obtain evs where
    e: "trace_of (train example_env 0 example_world) = trace example_world @ evs" and
    a: "\<forall>ep' i ms m p. TrainBatch ep' i ms \<in> set evs \<and> m \<in> set ms
            \<and> m_type m = ''BatchNorm2d_fix'' \<and> p \<in> set (m_policies m)
            \<and> p_role p \<in> {''running_mean'', ''running_var''} \<longrightarrow> p_mode p = FIX_AUTO"
    by blast
  from train_out [of example_env 0 example_world] obtain k where
    k: "k \<le> len_train_loader example_env" and
    tk: "trace_of (train example_env 0 example_world)
       = trace example_world @ SetFixMethod FIX_AUTO [] # ModelTrain
           # map (\<lambda>i. TrainBatch 0 i ?snap) [0..<k]" and
    rk: "\<forall>u w'. train example_env 0 example_world = Returned u w' \<longrightarrow>
           k = len_train_loader example_env"
    by blast
  have "\<exists>u w'. train example_env 0 example_world = Returned u w'"
    by (simp add: run_defs)
  with rk have "k = 1" by (auto simp: example_env_def)
  with e tk have "evs = SetFixMethod FIX_AUTO [] # ModelTrain # map (\<lambda>i. TrainBatch 0 i ?snap) [0..<1]"
    by simp
  then have mem: "TrainBatch 0 0 ?snap \<in> set evs" by simp
  with a snap have "p_mode (m_policies (hd ?snap) ! 1) = FIX_AUTO" by blast
  moreover from t mt have "p_mode (m_policies ?mt ! 1) = FIX_NONE" by blast
  moreover from t me have "p_mode (m_policies ?me ! 1) = FIX_AUTO" by blast
  ultimately show ?thesis using e mem by blast
qed

text \<open>
  On the example state, whose running-mean policy starts in mode \<open>FIX_NONE\<close>, the
  batch of a training phase is processed with that policy in mode \<open>FIX_AUTO\<close>.
\<close>

theorem train_sets_running_mean_auto:
  "trace_of (train example_env 0 example_world) =
     [SetFixMethod FIX_AUTO [], ModelTrain,
      TrainBatch 0 0
        [\<lparr>m_type = ''BatchNorm2d_fix'',
          m_policies =
            [\<lparr>p_role = ''weight'', p_mode = FIX_AUTO, p_bitwidth = 8, p_range = RANGE_MAX\<rparr>,
             \<lparr>p_role = ''running_mean'', p_mode = FIX_AUTO, p_bitwidth = 8,
              p_range = RANGE_MAX\<rparr>]\<rparr>]]"
  by (simp add: run_defs)

subsection \<open>Startup and checkpoint loads\<close>

lemma main_resume_missing:
  "resume (wargs w) \<noteq> [] \<Longrightarrow> \<not> isfile env (resume (wargs w)) \<Longrightarrow>
     main_resume env w = Raised AssertionError (trace w)"
  by (simp add: main_resume_def)

lemma main_pretrained_missing:
  "pretrained (wargs w) \<noteq> [] \<Longrightarrow> \<not> isfile env (pretrained (wargs w)) \<Longrightarrow>
     main_pretrained env w = Raised AssertionError (trace w)"
  by (simp add: main_pretrained_def)

lemma main_resume_Raised:
  "main_resume env w = Raised e t \<Longrightarrow>
     t = trace w \<or> (t = trace w @ [TorchLoad (resume (wargs w))] \<and> isfile env (resume (wargs w)))"
  by (auto simp: main_resume_def Let_def split: if_splits sum.splits option.splits)

lemma main_pretrained_Raised:
  "main_pretrained env w = Raised e t \<Longrightarrow>
     t = trace w
     \<or> (t = trace w @ [TorchLoad (pretrained (wargs w))] \<and> isfile env (pretrained (wargs w)))"
  by (auto simp: main_pretrained_def Let_def split: if_splits sum.splits option.splits)

lemma main_resume_Returned:
  assumes "main_resume env w = Returned u w'"
  shows "w' = w\<lparr>wargs := (wargs w)\<lparr>start_epoch := start_epoch (wargs w')\<rparr>,
                best_prec1 := best_prec1 w',
                model := (model w)\<lparr>tensors := tensors (model w')\<rparr>,
                trace := trace w'\<rparr>"
    and "resume (wargs w) = [] \<longrightarrow> w' = w"
    and "resume (wargs w) \<noteq> [] \<longrightarrow>
           isfile env (resume (wargs w))
           \<and> trace w' = trace w @ [TorchLoad (resume (wargs w))]
           \<and> (\<exists>ck. torch_load env (resume (wargs w)) = Inr ck
                 \<and> ck_epoch ck = Some (start_epoch (wargs w'))
                 \<and> ck_best_prec1 ck = Some (best_prec1 w')
                 \<and> ck_state_dict ck = Some (tensors (model w')))"
  using assms
  by (auto simp: main_resume_def Let_def load_state_dict_def
           split: if_splits sum.splits option.splits)

lemma main_pretrained_Returned:
  assumes "main_pretrained env w = Returned u w'"
  shows "w' = w\<lparr>model := (model w)\<lparr>tensors := tensors (model w')\<rparr>, trace := trace w'\<rparr>"
    and "pretrained (wargs w) = [] \<longrightarrow> w' = w"
    and "pretrained (wargs w) \<noteq> [] \<longrightarrow>
           isfile env (pretrained (wargs w))
           \<and> trace w' = trace w @ [TorchLoad (pretrained (wargs w))]
           \<and> (\<exists>ck. torch_load env (pretrained (wargs w)) = Inr ck
                 \<and> ck_state_dict ck = Some (tensors (model w')))"
  using assms
  by (auto simp: main_pretrained_def Let_def load_state_dict_def
           split: if_splits sum.splits option.splits)

lemma FixNet_Inr:
  assumes "FixNet ns fb fg rm grm bd bg = Inr m"
  shows "c_fix_bn (cfg m) = fb" "c_fix_grad (cfg m) = fg"
    "range_kind_of rm = Some (c_range_method (cfg m))"
    "range_kind_of grm = Some (c_grad_range_method (cfg m))"
    "c_bitwidth_data (cfg m) = bd" "c_bitwidth_grad (cfg m) = bg"
    "0 < bd" "0 < bg"
  using assms by (auto simp: FixNet_def split: if_splits option.splits)

lemma main_setup_cases:
  "main_setup env a = Raised ValueError []
   \<or> main_setup env a = Raised IndexError []
   \<or> (\<exists>g t2. (t2 = [SetDevice g] \<or> t2 = [SetDevice g, MakeDirs (save_dir a)])
        \<and> ((\<exists>e. FixNet (the_net env) (\<not> float_bn a) (fix_grad a) (range_method a)
                    (grad_range_method a) (bitwidth_data a) (bitwidth_grad a) = Inl e
                  \<and> main_setup env a = Raised e t2)
           \<or> (\<exists>m. FixNet (the_net env) (\<not> float_bn a) (fix_grad a) (range_method a)
                    (grad_range_method a) (bitwidth_data a) (bitwidth_grad a) = Inr m
                  \<and> main_setup env a =
                      (case main_resume env
                              \<lparr>wargs = a, model = m, optimizer = [], best_prec1 = 90, trace = t2\<rparr> of
                         Raised e t \<Rightarrow> Raised e t
                       | Returned u w1 \<Rightarrow> main_pretrained env w1))))"
  unfolding main_setup_def Let_def
  by (auto split: option.splits list.splits sum.splits)

lemma main_resume_args:
  "main_resume env w = Returned u w' \<Longrightarrow>
     pretrained (wargs w') = pretrained (wargs w) \<and> resume (wargs w') = resume (wargs w)"
  by (auto simp: main_resume_def Let_def split: if_splits sum.splits option.splits)

lemma startup_prefix:
  "t2 = [SetDevice g] \<or> t2 = [SetDevice g, MakeDirs p] \<Longrightarrow> \<forall>ev \<in> set t2. startup_event env ev"
  by auto

lemma main_resume_trace:
  assumes "\<forall>ev \<in> set (trace w). startup_event env ev"
  shows "\<forall>ev \<in> set (trace_of (main_resume env w)). startup_event env ev"
proof (cases "main_resume env w")
  case (Raised e t)
  from main_resume_Raised [OF Raised] assms Raised show ?thesis by auto
next
  case (Returned u w')
  from main_resume_Returned(2,3) [OF Returned] assms Returned show ?thesis
    by (cases "resume (wargs w) = []") auto
qed

lemma main_pretrained_trace:
  assumes "\<forall>ev \<in> set (trace w). startup_event env ev"
  shows "\<forall>ev \<in> set (trace_of (main_pretrained env w)). startup_event env ev"
proof (cases "main_pretrained env w")
  case (Raised e t)
  from main_pretrained_Raised [OF Raised] assms Raised show ?thesis by auto
next
  case (Returned u w')
  from main_pretrained_Returned(2,3) [OF Returned] assms Returned show ?thesis
    by (cases "pretrained (wargs w) = []") auto
qed

lemma main_setup_trace:
  "\<forall>ev \<in> set (trace_of (main_setup env a)). startup_event env ev"
proof -
  from main_setup_cases [of env a]
  consider "main_setup env a = Raised ValueError []" | "main_setup env a = Raised IndexError []"
    | g t2 e where "t2 = [SetDevice g] \<or> t2 = [SetDevice g, MakeDirs (save_dir a)]"
        "main_setup env a = Raised e t2"
    | g t2 m where "t2 = [SetDevice g] \<or> t2 = [SetDevice g, MakeDirs (save_dir a)]"
        "main_setup env a =
           (case main_resume env
                   \<lparr>wargs = a, model = m, optimizer = [], best_prec1 = 90, trace = t2\<rparr> of
              Raised e t \<Rightarrow> Raised e t
            | Returned u w1 \<Rightarrow> main_pretrained env w1)"
    by blast
  then show ?thesis
  proof cases
    case 1 then show ?thesis by simp
  next
    case 2 then show ?thesis by simp
  next
    case 3
    from startup_prefix [OF 3(1)] 3(2) show ?thesis by simp
  next
    case 4
    let ?w0 = "\<lparr>wargs = a, model = m, optimizer = [], best_prec1 = 90, trace = t2\<rparr>"
    from startup_prefix [OF 4(1)] have t0: "\<forall>ev \<in> set (trace ?w0). startup_event env ev" by simp
    show ?thesis
    proof (cases "main_resume env ?w0")
      case (Raised e t)
      with main_resume_trace [OF t0] 4(2) show ?thesis by simp
    next
      case (Returned u w1)
      with main_resume_trace [OF t0] have "\<forall>ev \<in> set (trace w1). startup_event env ev" by simp
      from main_pretrained_trace [OF this] 4(2) Returned show ?thesis by simp
    qed
  qed
qed

lemma main_setup_Returned:
  assumes "main_setup env a = Returned u w"
  shows "\<exists>m w0 w1.
      FixNet (the_net env) (\<not> float_bn a) (fix_grad a) (range_method a)
        (grad_range_method a) (bitwidth_data a) (bitwidth_grad a) = Inr m
      \<and> model w0 = m \<and> wargs w0 = a \<and> best_prec1 w0 = 90 \<and> optimizer w0 = []
      \<and> main_resume env w0 = Returned () w1 \<and> main_pretrained env w1 = Returned u w"
proof -
  from main_setup_cases [of env a] assms obtain t2 m where
    f: "FixNet (the_net env) (\<not> float_bn a) (fix_grad a) (range_method a)
        (grad_range_method a) (bitwidth_data a) (bitwidth_grad a) = Inr m" and
    s: "main_setup env a =
           (case main_resume env
                   \<lparr>wargs = a, model = m, optimizer = [], best_prec1 = 90, trace = t2\<rparr> of
              Raised e t \<Rightarrow> Raised e t
            | Returned u w1 \<Rightarrow> main_pretrained env w1)"
    by auto
  let ?w0 = "\<lparr>wargs = a, model = m, optimizer = [], best_prec1 = 90, trace = t2\<rparr>"
  from s assms obtain w1 where "main_resume env ?w0 = Returned () w1"
    "main_pretrained env w1 = Returned u w"
    by (cases "main_resume env ?w0") auto
  with f show ?thesis by (intro exI [of _ m] exI [of _ ?w0] exI [of _ w1]) simp
qed

lemma main_setup_missing:
  assumes "(resume a \<noteq> [] \<and> \<not> isfile env (resume a))
         \<or> (pretrained a \<noteq> [] \<and> \<not> isfile env (pretrained a))"
  shows "\<exists>e t. main_setup env a = Raised e t"
proof (cases "main_setup env a")
  case (Raised e t)
  then show ?thesis by blast
next
  case (Returned u w)
  from main_setup_Returned [OF Returned] obtain w0 w1 where
    a: "wargs w0 = a" and r: "main_resume env w0 = Returned () w1"
    and p: "main_pretrained env w1 = Returned u w" by blast
  from r main_resume_missing [of w0 env] a
  have nr: "\<not> (resume a \<noteq> [] \<and> \<not> isfile env (resume a))" by auto
  from main_resume_args [OF r] a have "pretrained (wargs w1) = pretrained a" by simp
  with p main_pretrained_missing [of w1 env]
  have "\<not> (pretrained a \<noteq> [] \<and> \<not> isfile env (pretrained a))" by auto
  with nr assms show ?thesis by blast
qed

lemma main_resume_model:
  "main_resume env w = Returned u w' \<Longrightarrow>
     cfg (model w') = cfg (model w) \<and> modules (model w') = modules (model w)"
  by (auto simp: main_resume_def Let_def load_state_dict_def
           split: if_splits sum.splits option.splits)

lemma main_pretrained_model:
  "main_pretrained env w = Returned u w' \<Longrightarrow>
     cfg (model w') = cfg (model w) \<and> modules (model w') = modules (model w)"
  by (auto simp: main_pretrained_def Let_def load_state_dict_def
           split: if_splits sum.splits option.splits)

lemma main_setup_model:
  assumes "main_setup env a = Returned u w"
  shows "\<exists>m. FixNet (the_net env) (\<not> float_bn a) (fix_grad a) (range_method a)
                (grad_range_method a) (bitwidth_data a) (bitwidth_grad a) = Inr m
             \<and> cfg (model w) = cfg m \<and> modules (model w) = modules m"
proof -
  from main_setup_Returned [OF assms] obtain m w0 w1 where
    f: "FixNet (the_net env) (\<not> float_bn a) (fix_grad a) (range_method a)
          (grad_range_method a) (bitwidth_data a) (bitwidth_grad a) = Inr m" and
    m: "model w0 = m" and r: "main_resume env w0 = Returned () w1" and
    p: "main_pretrained env w1 = Returned u w" by blast
  from main_resume_model [OF r] main_pretrained_model [OF p] m f show ?thesis by simp
qed

text \<open>
  Claim C3. A run whose resume path or pretrained path is given (not empty) and names no
  existing file ends in an exception raised during startup: the trace of the run holds
  only startup events (device selection, directory creation, loads of files that
  exist), so no mode-set call, batch or save was reached and no load of the missing file
  was attempted. The check itself raises \<open>AssertionError\<close> at once, with nothing added to
  the trace.
\<close>

theorem missing_checkpoint_is_fatal:
  "(parse_args (bi env) argv = Inr a
      \<and> ((resume a \<noteq> [] \<and> \<not> isfile env (resume a))
          \<or> (pretrained a \<noteq> [] \<and> \<not> isfile env (pretrained a)))
     \<longrightarrow> (\<exists>e t. main env argv = Raised e t \<and> (\<forall>ev \<in> set t. startup_event env ev)))
   \<and> (resume (wargs w) \<noteq> [] \<and> \<not> isfile env (resume (wargs w))
     \<longrightarrow> main_resume env w = Raised AssertionError (trace w))
   \<and> (pretrained (wargs w) \<noteq> [] \<and> \<not> isfile env (pretrained (wargs w))
     \<longrightarrow> main_pretrained env w = Raised AssertionError (trace w))"
proof (intro conjI impI)
  assume h: "parse_args (bi env) argv = Inr a
      \<and> ((resume a \<noteq> [] \<and> \<not> isfile env (resume a))
          \<or> (pretrained a \<noteq> [] \<and> \<not> isfile env (pretrained a)))"
  then obtain e t where s: "main_setup env a = Raised e t"
    using main_setup_missing [of a env] by blast
  with main_setup_trace [of env a] have "\<forall>ev \<in> set t. startup_event env ev" by simp
  moreover from h s have "main env argv = Raised e t" by (simp add: main_def)
  ultimately show "\<exists>e t. main env argv = Raised e t \<and> (\<forall>ev \<in> set t. startup_event env ev)"
    by blast
next
  assume "resume (wargs w) \<noteq> [] \<and> \<not> isfile env (resume (wargs w))"
  then show "main_resume env w = Raised AssertionError (trace w)"
    by (simp add: main_resume_missing)
next
  assume "pretrained (wargs w) \<noteq> [] \<and> \<not> isfile env (pretrained (wargs w))"
  then show "main_pretrained env w = Raised AssertionError (trace w)"
    by (simp add: main_pretrained_missing)
qed

lemma example_parse_resume:
  "parse_args (bi example_env) [Opt_save_dir ''out'', Opt_resume p]
     = Inr (defaults\<lparr>save_dir := ''out'', resume := p\<rparr>)"
  by (simp add: parse_args_def example_env_def)

theorem missing_checkpoint_is_fatal_witness:
  "(\<exists>e t. main example_env [Opt_save_dir ''out'', Opt_resume ''nockpt.tar''] = Raised e t
       \<and> (\<forall>ev \<in> set t. startup_event example_env ev))
   \<and> main_pretrained example_env (example_world\<lparr>wargs := defaults\<lparr>pretrained := ''nockpt.tar''\<rparr>\<rparr>)
       = Raised AssertionError []"
proof -
  let ?a = "defaults\<lparr>save_dir := ''out'', resume := ''nockpt.tar''\<rparr>"
  let ?w = "example_world\<lparr>wargs := defaults\<lparr>pretrained := ''nockpt.tar''\<rparr>\<rparr>"
  note t = missing_checkpoint_is_fatal
    [of example_env "[Opt_save_dir ''out'', Opt_resume ''nockpt.tar'']" ?a ?w]
  have h: "resume ?a \<noteq> [] \<and> \<not> isfile example_env (resume ?a)"
    by (simp add: example_env_def)
  have h2: "pretrained (wargs ?w) \<noteq> [] \<and> \<not> isfile example_env (pretrained (wargs ?w))"
    by (simp add: example_env_def)
  have tr: "trace ?w = []" by (simp add: example_world_def)
  from t example_parse_resume [of "''nockpt.tar''"] h
  have "\<exists>e t. main example_env [Opt_save_dir ''out'', Opt_resume ''nockpt.tar''] = Raised e t
       \<and> (\<forall>ev \<in> set t. startup_event example_env ev)" by blast
  moreover from t h2 have "main_pretrained example_env ?w = Raised AssertionError (trace ?w)"
    by blast
  ultimately show ?thesis unfolding tr by blast
qed

text \<open>
  Claim C5. A resume load changes nothing of the state but the tensor values, the start
  epoch, the best precision (all three read from the checkpoint) and the trace; a
  pretrained load changes nothing but the tensor values and the trace. After startup the
  model's configuration and policies are those of the FixNet constructed from the
  arguments: bitwidths, range methods and gradient-fix setting derive from the
  construction arguments and not from any checkpoint.
\<close>

theorem checkpoint_load_keeps_configuration:
  "(main_resume env w = Returned u w' \<longrightarrow>
      w' = w\<lparr>wargs := (wargs w)\<lparr>start_epoch := start_epoch (wargs w')\<rparr>,
             best_prec1 := best_prec1 w',
             model := (model w)\<lparr>tensors := tensors (model w')\<rparr>,
             trace := trace w'\<rparr>
      \<and> (resume (wargs w) \<noteq> [] \<longrightarrow>
            (\<exists>ck. torch_load env (resume (wargs w)) = Inr ck
                 \<and> ck_epoch ck = Some (start_epoch (wargs w'))
                 \<and> ck_best_prec1 ck = Some (best_prec1 w')
                 \<and> ck_state_dict ck = Some (tensors (model w')))))
   \<and> (main_pretrained env w = Returned u w' \<longrightarrow>
      w' = w\<lparr>model := (model w)\<lparr>tensors := tensors (model w')\<rparr>, trace := trace w'\<rparr>
      \<and> (pretrained (wargs w) \<noteq> [] \<longrightarrow>
            (\<exists>ck. torch_load env (pretrained (wargs w)) = Inr ck
                 \<and> ck_state_dict ck = Some (tensors (model w')))))
   \<and> (main_setup env a = Returned u w' \<longrightarrow>
      (\<exists>m. FixNet (the_net env) (\<not> float_bn a) (fix_grad a) (range_method a)
                (grad_range_method a) (bitwidth_data a) (bitwidth_grad a) = Inr m
           \<and> cfg (model w') = cfg m \<and> modules (model w') = modules m
           \<and> c_fix_bn (cfg m) = (\<not> float_bn a) \<and> c_fix_grad (cfg m) = fix_grad a
           \<and> range_kind_of (range_method a) = Some (c_range_method (cfg m))
           \<and> range_kind_of (grad_range_method a) = Some (c_grad_range_method (cfg m))
           \<and> c_bitwidth_data (cfg m) = bitwidth_data a
           \<and> c_bitwidth_grad (cfg m) = bitwidth_grad a))"
proof (intro conjI impI)
  assume r: "main_resume env w = Returned u w'"
  from main_resume_Returned(1) [OF r]
  show "w' = w\<lparr>wargs := (wargs w)\<lparr>start_epoch := start_epoch (wargs w')\<rparr>,
             best_prec1 := best_prec1 w',
             model := (model w)\<lparr>tensors := tensors (model w')\<rparr>,
             trace := trace w'\<rparr>" .
  assume "resume (wargs w) \<noteq> []"
  with main_resume_Returned(3) [OF r]
  show "\<exists>ck. torch_load env (resume (wargs w)) = Inr ck
                 \<and> ck_epoch ck = Some (start_epoch (wargs w'))
                 \<and> ck_best_prec1 ck = Some (best_prec1 w')
                 \<and> ck_state_dict ck = Some (tensors (model w'))" by blast
next
  assume p: "main_pretrained env w = Returned u w'"
  from main_pretrained_Returned(1) [OF p]
  show "w' = w\<lparr>model := (model w)\<lparr>tensors := tensors (model w')\<rparr>, trace := trace w'\<rparr>" .
  assume "pretrained (wargs w) \<noteq> []"
  with main_pretrained_Returned(3) [OF p]
  show "\<exists>ck. torch_load env (pretrained (wargs w)) = Inr ck
                 \<and> ck_state_dict ck = Some (tensors (model w'))" by blast
next
  assume s: "main_setup env a = Returned u w'"
  from main_setup_model [OF s] obtain m where
    f: "FixNet (the_net env) (\<not> float_bn a) (fix_grad a) (range_method a)
                (grad_range_method a) (bitwidth_data a) (bitwidth_grad a) = Inr m" and
    c: "cfg (model w') = cfg m" "modules (model w') = modules m" by blast
  from FixNet_Inr(1-6) [OF f] f c
  show "\<exists>m. FixNet (the_net env) (\<not> float_bn a) (fix_grad a) (range_method a)
                (grad_range_method a) (bitwidth_data a) (bitwidth_grad a) = Inr m
           \<and> cfg (model w') = cfg m \<and> modules (model w') = modules m
           \<and> c_fix_bn (cfg m) = (\<not> float_bn a) \<and> c_fix_grad (cfg m) = fix_grad a
           \<and> range_kind_of (range_method a) = Some (c_range_method (cfg m))
           \<and> range_kind_of (grad_range_method a) = Some (c_grad_range_method (cfg m))
           \<and> c_bitwidth_data (cfg m) = bitwidth_data a
           \<and> c_bitwidth_grad (cfg m) = bitwidth_grad a"
    by blast
qed

lemma example_setup_returns:
  "\<exists>w'. main_setup example_env (defaults\<lparr>save_dir := ''out'', resume := ''ckpt.tar''\<rparr>)
          = Returned () w'"
  by (simp add: main_setup_def main_resume_def main_pretrained_def FixNet_def Let_def
        example_env_def example_builtins_def example_net_def example_checkpoint_def
        defaults_def load_state_dict_def)

lemma example_resume_returns:
  "\<exists>w'. main_resume example_env (example_world\<lparr>wargs := defaults\<lparr>resume := ''ckpt.tar''\<rparr>\<rparr>)
          = Returned () w'"
  by (simp add: main_resume_def Let_def example_env_def example_checkpoint_def defaults_def)

lemma example_pretrained_returns:
  "\<exists>w'. main_pretrained example_env (example_world\<lparr>wargs := defaults\<lparr>pretrained := ''ckpt.tar''\<rparr>\<rparr>)
          = Returned () w'"
  by (simp add: main_pretrained_def Let_def example_env_def example_checkpoint_def defaults_def)

theorem checkpoint_load_keeps_configuration_witness:
  "(\<exists>w'. main_resume example_env (example_world\<lparr>wargs := defaults\<lparr>resume := ''ckpt.tar''\<rparr>\<rparr>)
            = Returned () w'
        \<and> cfg (model w') = cfg (model example_world)
        \<and> modules (model w') = modules (model example_world)
        \<and> tensors (model w') = [(''conv.weight'', [1 / 4])]
        \<and> start_epoch (wargs w') = 1 \<and> best_prec1 w' = 92)
   \<and> (\<exists>w'. main_pretrained example_env
              (example_world\<lparr>wargs := defaults\<lparr>pretrained := ''ckpt.tar''\<rparr>\<rparr>)
            = Returned () w'
        \<and> cfg (model w') = cfg (model example_world)
        \<and> modules (model w') = modules (model example_world)
        \<and> tensors (model w') = [(''conv.weight'', [1 / 4])]
        \<and> start_epoch (wargs w') = 0 \<and> best_prec1 w' = 90)
   \<and> (\<exists>w'. main_setup example_env (defaults\<lparr>save_dir := ''out'', resume := ''ckpt.tar''\<rparr>)
            = Returned () w'
        \<and> c_bitwidth_data (cfg (model w')) = 8 \<and> c_bitwidth_grad (cfg (model w')) = 16
        \<and> \<not> c_fix_grad (cfg (model w')) \<and> c_range_method (cfg (model w')) = RANGE_MAX)"
proof -
  let ?w = "example_world\<lparr>wargs := defaults\<lparr>resume := ''ckpt.tar''\<rparr>\<rparr>"
  let ?wp = "example_world\<lparr>wargs := defaults\<lparr>pretrained := ''ckpt.tar''\<rparr>\<rparr>"
  let ?a = "defaults\<lparr>save_dir := ''out'', resume := ''ckpt.tar''\<rparr>"
  from example_resume_returns obtain w1 where r: "main_resume example_env ?w = Returned () w1"
    by blast
  from example_setup_returns obtain w2 where s: "main_setup example_env ?a = Returned () w2"
    by blast
  from example_pretrained_returns obtain w3 where
    p: "main_pretrained example_env ?wp = Returned () w3" by blast
  note t1 = checkpoint_load_keeps_configuration [of example_env ?w "()" w1 ?a]
  note t2 = checkpoint_load_keeps_configuration [of example_env ?w "()" w2 ?a]
  note t3 = checkpoint_load_keeps_configuration [of example_env ?wp "()" w3 ?a]
  have ne: "resume (wargs ?w) \<noteq> []" by simp
  from t1 [THEN conjunct1, rule_format, OF r] ne have
    eq: "w1 = ?w\<lparr>wargs := (wargs ?w)\<lparr>start_epoch := start_epoch (wargs w1)\<rparr>,
             best_prec1 := best_prec1 w1,
             model := (model ?w)\<lparr>tensors := tensors (model w1)\<rparr>,
             trace := trace w1\<rparr>" and
    ck: "\<exists>ck. torch_load example_env (resume (wargs ?w)) = Inr ck
                 \<and> ck_epoch ck = Some (start_epoch (wargs w1))
                 \<and> ck_best_prec1 ck = Some (best_prec1 w1)
                 \<and> ck_state_dict ck = Some (tensors (model w1))"
    by blast+
  have "model w1 = (model example_world)\<lparr>tensors := tensors (model w1)\<rparr>"
    by (subst eq) simp
  then have c1: "cfg (model w1) = cfg (model example_world)"
      "modules (model w1) = modules (model example_world)"
    by (metis fixnet.select_convs(1) fixnet.surjective fixnet.update_convs(3),
        metis fixnet.select_convs(2) fixnet.surjective fixnet.update_convs(3))
  from ck have v1: "tensors (model w1) = [(''conv.weight'', [1 / 4])]"
      "start_epoch (wargs w1) = 1" "best_prec1 w1 = 92"
    by (auto simp: example_env_def example_checkpoint_def)
  have nep: "pretrained (wargs ?wp) \<noteq> []" by simp
  from t3 [THEN conjunct2, THEN conjunct1, rule_format, OF p] nep have
    eqp: "w3 = ?wp\<lparr>model := (model ?wp)\<lparr>tensors := tensors (model w3)\<rparr>, trace := trace w3\<rparr>" and
    ckp: "\<exists>ck. torch_load example_env (pretrained (wargs ?wp)) = Inr ck
                 \<and> ck_state_dict ck = Some (tensors (model w3))"
    by blast+
  have mp: "model w3 = (model example_world)\<lparr>tensors := tensors (model w3)\<rparr>"
    by (subst eqp) simp
  then have c3: "cfg (model w3) = cfg (model example_world)"
      "modules (model w3) = modules (model example_world)"
    by (metis fixnet.select_convs(1) fixnet.surjective fixnet.update_convs(3),
        metis fixnet.select_convs(2) fixnet.surjective fixnet.update_convs(3))
  have "wargs w3 = defaults\<lparr>pretrained := ''ckpt.tar''\<rparr>" "best_prec1 w3 = best_prec1 example_world"
    by (subst eqp, simp)+
  then have f3: "start_epoch (wargs w3) = 0" "best_prec1 w3 = 90"
    by (simp_all add: defaults_def example_world_def)
  from ckp have v3: "tensors (model w3) = [(''conv.weight'', [1 / 4])]"
    by (auto simp: example_env_def example_checkpoint_def)
  from t2 [THEN conjunct2, THEN conjunct2, rule_format, OF s]
  have v2: "c_bitwidth_data (cfg (model w2)) = 8" "c_bitwidth_grad (cfg (model w2)) = 16"
      "\<not> c_fix_grad (cfg (model w2))" "c_range_method (cfg (model w2)) = RANGE_MAX"
    by (auto simp: defaults_def)
  have A: "\<exists>w'. main_resume example_env ?w = Returned () w'
        \<and> cfg (model w') = cfg (model example_world)
        \<and> modules (model w') = modules (model example_world)
        \<and> tensors (model w') = [(''conv.weight'', [1 / 4])]
        \<and> start_epoch (wargs w') = 1 \<and> best_prec1 w' = 92"
    using r c1 v1 by (intro exI [of _ w1]) simp
  have B: "\<exists>w'. main_pretrained example_env ?wp = Returned () w'
        \<and> cfg (model w') = cfg (model example_world)
        \<and> modules (model w') = modules (model example_world)
        \<and> tensors (model w') = [(''conv.weight'', [1 / 4])]
        \<and> start_epoch (wargs w') = 0 \<and> best_prec1 w' = 90"
    using p c3 v3 f3 by (intro exI [of _ w3]) simp
  have C: "\<exists>w'. main_setup example_env ?a = Returned () w'
        \<and> c_bitwidth_data (cfg (model w')) = 8 \<and> c_bitwidth_grad (cfg (model w')) = 16
        \<and> \<not> c_fix_grad (cfg (model w')) \<and> c_range_method (cfg (model w')) = RANGE_MAX"
    using s v2 by (intro exI [of _ w2]) simp
  from A B C show ?thesis by (intro conjI)
qed

subsection \<open>Gradient quantization\<close>

lemma backward_identity_hook: "backward (\<lambda>g. Inr g) fs g = backward_full_precision fs g"
  unfolding backward_full_precision_def
  by (rule arg_cong [where f = "\<lambda>h. backward h fs g"]) (rule refl)

lemma backward_unquantized:
  assumes "\<not> c_fix_grad (cfg net)"
  shows "backward (quantize_gradient q net) fs g = backward_full_precision fs g"
proof -
  from assms have "quantize_gradient q net = (\<lambda>g. Inr g)"
    by (simp add: quantize_gradient_def fun_eq_iff)
  then show ?thesis by (simp add: backward_full_precision_def)
qed

lemma train_keeps_cfg:
  "train env ep w = Returned u w' \<Longrightarrow> cfg (model w') = cfg (model w)"
  using train_out [of env ep w] by blast

text \<open>
  Claim C6. When gradient quantization is disabled, the backward pass of the model gives
  exactly the values of the backward pass with full-precision gradients, whatever the
  representation of gradients and whatever the quantizer. It is disabled by default:
  when \<open>--fix-grad\<close> is absent from the command line, \<open>args.fix_grad\<close> is false, and so
  is the setting of the model that startup constructs; training does not change the
  setting.
\<close>

theorem gradients_full_precision_by_default:
  "(\<not> c_fix_grad (cfg net) \<longrightarrow>
      backward (quantize_gradient q net) fs g = backward_full_precision fs g)
   \<and> (Opt_fix_grad \<notin> set argv \<and> parse_args (bi env) argv = Inr a
        \<and> main_setup env a = Returned u w \<longrightarrow>
      \<not> fix_grad a \<and> \<not> c_fix_grad (cfg (model w))
      \<and> backward (quantize_gradient q (model w)) fs g = backward_full_precision fs g)
   \<and> (train env ep w = Returned u' w' \<longrightarrow> c_fix_grad (cfg (model w')) = c_fix_grad (cfg (model w)))"
proof (intro conjI impI)
  assume "\<not> c_fix_grad (cfg net)"
  then show "backward (quantize_gradient q net) fs g = backward_full_precision fs g"
    by (rule backward_unquantized)
next
  assume h: "Opt_fix_grad \<notin> set argv \<and> parse_args (bi env) argv = Inr a
        \<and> main_setup env a = Returned u w"
  then show a: "\<not> fix_grad a" using parse_args_fix_grad_default by blast
  from h main_setup_model [of env a u w] obtain m where
    "FixNet (the_net env) (\<not> float_bn a) (fix_grad a) (range_method a)
                (grad_range_method a) (bitwidth_data a) (bitwidth_grad a) = Inr m"
    "cfg (model w) = cfg m" by blast
  with FixNet_Inr(2) a show c: "\<not> c_fix_grad (cfg (model w))" by metis
  then show "backward (quantize_gradient q (model w)) fs g = backward_full_precision fs g"
    by (rule backward_unquantized)
next
  assume "train env ep w = Returned u' w'"
  then show "c_fix_grad (cfg (model w')) = c_fix_grad (cfg (model w))"
    by (simp add: train_keeps_cfg)
qed

lemma example_parse_default:
  "parse_args (bi example_env) [Opt_save_dir ''out''] = Inr (defaults\<lparr>save_dir := ''out''\<rparr>)"
  by (simp add: parse_args_def example_env_def)

lemma example_setup_default:
  "\<exists>w'. main_setup example_env (defaults\<lparr>save_dir := ''out''\<rparr>) = Returned () w'"
  by (simp add: main_setup_def main_resume_def main_pretrained_def FixNet_def Let_def
        example_env_def example_builtins_def example_net_def defaults_def)

theorem gradients_full_precision_by_default_witness:
  "\<exists>w. main_setup example_env (defaults\<lparr>save_dir := ''out''\<rparr>) = Returned () w
      \<and> backward (quantize_gradient (\<lambda>b r g. Inl ConfigError) (model w))
           [\<lambda>x. x + 1, \<lambda>x. 2 * x] (1 :: real) = Inr [2, 4]"
proof -
  from example_setup_default obtain w where
    s: "main_setup example_env (defaults\<lparr>save_dir := ''out''\<rparr>) = Returned () w" by blast
  have n: "Opt_fix_grad \<notin> set [Opt_save_dir ''out'']" by simp
  from gradients_full_precision_by_default
    [where argv = "[Opt_save_dir ''out'']" and env = example_env
        and a = "defaults\<lparr>save_dir := ''out''\<rparr>" and u = "()" and w = w
        and q = "\<lambda>b r g. Inl ConfigError" and fs = "[\<lambda>x. x + 1, \<lambda>x. 2 * x]"
        and g = "1 :: real",
      THEN conjunct2, THEN conjunct1, rule_format, OF conjI [OF n conjI [OF example_parse_default s]]]
  have "backward (quantize_gradient (\<lambda>b r g. Inl ConfigError) (model w))
           [\<lambda>x. x + 1, \<lambda>x. 2 * x] (1 :: real)
        = backward_full_precision [\<lambda>x. x + 1, \<lambda>x. 2 * x] (1 :: real)"
    by blast
  also have "\<dots> = Inr [2, 4]" by (simp add: backward_full_precision_def)
  finally show ?thesis using s by blast
qed

subsection \<open>Rejected configurations\<close>

lemma main_parse_error:
  "parse_args (bi env) argv = Inl e \<Longrightarrow> main env argv = Raised e []"
  by (simp add: main_def)

lemma main_rejected_construction:
  assumes "parse_args (bi env) argv = Inr a"
    and "FixNet (the_net env) (\<not> float_bn a) (fix_grad a) (range_method a)
           (grad_range_method a) (bitwidth_data a) (bitwidth_grad a) = Inl e0"
  shows "\<exists>e t. main env argv = Raised e t
           \<and> (\<forall>ev \<in> set t. (\<exists>d. ev = SetDevice d) \<or> (\<exists>p. ev = MakeDirs p))"
proof -
  from main_setup_cases [of env a] assms(2)
  have "\<exists>e t. main_setup env a = Raised e t
           \<and> (\<forall>ev \<in> set t. (\<exists>d. ev = SetDevice d) \<or> (\<exists>p. ev = MakeDirs p))"
    by auto
  then show ?thesis using assms(1) by (auto simp: main_def)
qed

lemma bitwidth_rejected:
  assumes "\<And>a. parse_args (bi env) argv = Inr a \<Longrightarrow> bitwidth_data a \<le> 0 \<or> bitwidth_grad a \<le> 0"
  shows "((\<exists>m. parse_args (bi env) argv = Inl (ArgumentError m))
          \<or> (\<exists>a. parse_args (bi env) argv = Inr a
                \<and> FixNet (the_net env) (\<not> float_bn a) (fix_grad a) (range_method a)
                     (grad_range_method a) (bitwidth_data a) (bitwidth_grad a) = Inl ConfigError))
         \<and> (\<exists>e t. main env argv = Raised e t
                \<and> (\<forall>ev \<in> set t. (\<exists>d. ev = SetDevice d) \<or> (\<exists>p. ev = MakeDirs p)))"
proof (cases "parse_args (bi env) argv")
  case (Inl e)
  with parse_args_error [OF Inl] main_parse_error [OF Inl] show ?thesis by auto
next
  case (Inr a)
  from assms [OF Inr] have "bitwidth_data a \<le> 0 \<or> bitwidth_grad a \<le> 0" .
  from FixNet_rejects_bitwidth [OF this]
  have f: "FixNet (the_net env) (\<not> float_bn a) (fix_grad a) (range_method a)
                     (grad_range_method a) (bitwidth_data a) (bitwidth_grad a) = Inl ConfigError" .
  from main_rejected_construction [OF Inr f] Inr f show ?thesis by blast
qed

text \<open>
  Claim C4. A command line that selects a range method (for data or for gradients) is
  rejected by the parser with a usage error, whatever the selection, so every selection
  outside the valid set is; the run ends there. A command line whose last
  \<open>--bitwidth-data\<close> (or \<open>--bitwidth-grad\<close>) value converts to an integer \<open>n \<le> 0\<close>
  is rejected before anything but device selection and directory creation has happened:
  either the parser reports a usage error for another option, or the parsed arguments
  hold \<open>n\<close> itself, not the default, and the construction of the model raises the
  configuration error.
\<close>

theorem invalid_configuration_rejected:
  "(Opt_range_method s \<in> set argv \<or> Opt_grad_range_method s \<in> set argv \<longrightarrow>
      (\<exists>m. parse_args (bi env) argv = Inl (ArgumentError m)
           \<and> main env argv = Raised (ArgumentError m) []))
   \<and> (argv = pre @ Opt_bitwidth_data s # post \<and> (\<forall>s'. Opt_bitwidth_data s' \<notin> set post)
        \<and> py_int (bi env) s = Some n \<and> n \<le> 0 \<longrightarrow>
      ((\<exists>m. parse_args (bi env) argv = Inl (ArgumentError m))
        \<or> (\<exists>a. parse_args (bi env) argv = Inr a \<and> bitwidth_data a = n
              \<and> FixNet (the_net env) (\<not> float_bn a) (fix_grad a) (range_method a)
                   (grad_range_method a) (bitwidth_data a) (bitwidth_grad a) = Inl ConfigError))
      \<and> (\<exists>e t. main env argv = Raised e t
             \<and> (\<forall>ev \<in> set t. (\<exists>d. ev = SetDevice d) \<or> (\<exists>p. ev = MakeDirs p))))
   \<and> (argv = pre @ Opt_bitwidth_grad s # post \<and> (\<forall>s'. Opt_bitwidth_grad s' \<notin> set post)
        \<and> py_int (bi env) s = Some n \<and> n \<le> 0 \<longrightarrow>
      ((\<exists>m. parse_args (bi env) argv = Inl (ArgumentError m))
        \<or> (\<exists>a. parse_args (bi env) argv = Inr a \<and> bitwidth_grad a = n
              \<and> FixNet (the_net env) (\<not> float_bn a) (fix_grad a) (range_method a)
                   (grad_range_method a) (bitwidth_data a) (bitwidth_grad a) = Inl ConfigError))
      \<and> (\<exists>e t. main env argv = Raised e t
             \<and> (\<forall>ev \<in> set t. (\<exists>d. ev = SetDevice d) \<or> (\<exists>p. ev = MakeDirs p))))"
proof (intro conjI impI)
  assume "Opt_range_method s \<in> set argv \<or> Opt_grad_range_method s \<in> set argv"
  from parse_args_range_method [OF this, of "bi env"] obtain m where
    "parse_args (bi env) argv = Inl (ArgumentError m)" by blast
  with main_parse_error [OF this]
  show "\<exists>m. parse_args (bi env) argv = Inl (ArgumentError m)
           \<and> main env argv = Raised (ArgumentError m) []" by blast
next
  assume h: "argv = pre @ Opt_bitwidth_data s # post \<and> (\<forall>s'. Opt_bitwidth_data s' \<notin> set post)
        \<and> py_int (bi env) s = Some n \<and> n \<le> 0"
  have v: "bitwidth_data a = n" if "parse_args (bi env) argv = Inr a" for a
    using parse_args_last_bitwidth_data [of "bi env" pre s post a] that h by simp
  with h have "bitwidth_data a \<le> 0 \<or> bitwidth_grad a \<le> 0"
    if "parse_args (bi env) argv = Inr a" for a
    using that by simp
  from bitwidth_rejected [OF this] v
  show "(\<exists>m. parse_args (bi env) argv = Inl (ArgumentError m))
        \<or> (\<exists>a. parse_args (bi env) argv = Inr a \<and> bitwidth_data a = n
              \<and> FixNet (the_net env) (\<not> float_bn a) (fix_grad a) (range_method a)
                   (grad_range_method a) (bitwidth_data a) (bitwidth_grad a) = Inl ConfigError)"
    and "\<exists>e t. main env argv = Raised e t
             \<and> (\<forall>ev \<in> set t. (\<exists>d. ev = SetDevice d) \<or> (\<exists>p. ev = MakeDirs p))"
    by blast+
next
  assume h: "argv = pre @ Opt_bitwidth_grad s # post \<and> (\<forall>s'. Opt_bitwidth_grad s' \<notin> set post)
        \<and> py_int (bi env) s = Some n \<and> n \<le> 0"
  have v: "bitwidth_grad a = n" if "parse_args (bi env) argv = Inr a" for a
    using parse_args_last_bitwidth_grad [of "bi env" pre s post a] that h by simp
  with h have "bitwidth_data a \<le> 0 \<or> bitwidth_grad a \<le> 0"
    if "parse_args (bi env) argv = Inr a" for a
    using that by simp
  from bitwidth_rejected [OF this] v
  show "(\<exists>m. parse_args (bi env) argv = Inl (ArgumentError m))
        \<or> (\<exists>a. parse_args (bi env) argv = Inr a \<and> bitwidth_grad a = n
              \<and> FixNet (the_net env) (\<not> float_bn a) (fix_grad a) (range_method a)
                   (grad_range_method a) (bitwidth_data a) (bitwidth_grad a) = Inl ConfigError)"
    and "\<exists>e t. main env argv = Raised e t
             \<and> (\<forall>ev \<in> set t. (\<exists>d. ev = SetDevice d) \<or> (\<exists>p. ev = MakeDirs p))"
    by blast+
qed

theorem invalid_configuration_rejected_witness:
  "(\<exists>m. main example_env [Opt_save_dir ''out'', Opt_range_method ''1''] = Raised (ArgumentError m) [])
   \<and> (\<exists>a. parse_args (bi example_env) [Opt_save_dir ''out'', Opt_bitwidth_data ''0''] = Inr a
         \<and> bitwidth_data a = 0
         \<and> FixNet (the_net example_env) (\<not> float_bn a) (fix_grad a) (range_method a)
              (grad_range_method a) (bitwidth_data a) (bitwidth_grad a) = Inl ConfigError)"
proof -
  have "Opt_range_method ''1'' \<in> set [Opt_save_dir ''out'', Opt_range_method ''1'']
      \<or> Opt_grad_range_method ''1'' \<in> set [Opt_save_dir ''out'', Opt_range_method ''1'']" by simp
  from invalid_configuration_rejected
    [where argv = "[Opt_save_dir ''out'', Opt_range_method ''1'']" and s = "''1''"
       and env = example_env, THEN conjunct1, rule_format, OF this]
  have A: "\<exists>m. main example_env [Opt_save_dir ''out'', Opt_range_method ''1'']
             = Raised (ArgumentError m) []" by blast
  have p: "parse_args (bi example_env) [Opt_save_dir ''out'', Opt_bitwidth_data ''0'']
      = Inr (defaults\<lparr>save_dir := ''out'', bitwidth_data := 0\<rparr>)"
    by (simp add: parse_args_def int_arg_def example_env_def example_builtins_def)
  have h: "[Opt_save_dir ''out'', Opt_bitwidth_data ''0''] = [Opt_save_dir ''out''] @ Opt_bitwidth_data ''0'' # []
      \<and> (\<forall>s'. Opt_bitwidth_data s' \<notin> set [])
      \<and> py_int (bi example_env) ''0'' = Some 0 \<and> (0::int) \<le> 0"
    by (simp add: example_env_def example_builtins_def)
  from invalid_configuration_rejected
    [where argv = "[Opt_save_dir ''out'', Opt_bitwidth_data ''0'']" and s = "''0''"
       and pre = "[Opt_save_dir ''out'']" and post = "[]" and n = 0
       and env = example_env, THEN conjunct2, THEN conjunct1, rule_format, OF h]
  have "(\<exists>m. parse_args (bi example_env) [Opt_save_dir ''out'', Opt_bitwidth_data ''0'']
            = Inl (ArgumentError m))
        \<or> (\<exists>a. parse_args (bi example_env) [Opt_save_dir ''out'', Opt_bitwidth_data ''0''] = Inr a
              \<and> bitwidth_data a = 0
              \<and> FixNet (the_net example_env) (\<not> float_bn a) (fix_grad a) (range_method a)
                   (grad_range_method a) (bitwidth_data a) (bitwidth_grad a) = Inl ConfigError)"
    by blast
  with p have "\<exists>a. parse_args (bi example_env) [Opt_save_dir ''out'', Opt_bitwidth_data ''0''] = Inr a
              \<and> bitwidth_data a = 0
              \<and> FixNet (the_net example_env) (\<not> float_bn a) (fix_grad a) (range_method a)
                   (grad_range_method a) (bitwidth_data a) (bitwidth_grad a) = Inl ConfigError"
    by simp
  with A show ?thesis by blast
qed

subsection \<open>Checkpoint writes\<close>

lemma precisions_append: "precisions (xs @ ys) = precisions xs @ precisions ys"
  by (induction xs rule: precisions.induct) simp_all

lemma precisions_train_batches: "precisions (map (\<lambda>i. TrainBatch ep i M) js) = []"
  by (induction js) simp_all

lemma precisions_eval_batches: "precisions (map (\<lambda>i. EvalBatch i M) js) = []"
  by (induction js) simp_all

lemma startup_quiet:
  "\<forall>ev \<in> set t. startup_event env ev \<Longrightarrow> precisions t = [] \<and> (\<forall>ev \<in> set t. \<not> is_save ev)"
proof (induction t)
  case Nil
  then show ?case by simp
next
  case (Cons ev t)
  then show ?case by (cases ev) simp_all
qed

lemma saves_justified_quiet:
  "\<forall>ev \<in> set t. \<not> is_save ev \<Longrightarrow> saves_justified t"
  unfolding saves_justified_def by auto

lemma saves_justified_append_quiet:
  assumes "saves_justified t" and "\<forall>ev \<in> set evs. \<not> is_save ev"
  shows "saves_justified (t @ evs)"
  unfolding saves_justified_def
proof (intro allI impI)
  fix pre ev post
  assume h: "t @ evs = pre @ ev # post \<and> is_save ev"
  then obtain us where
    "(t = pre @ us \<and> us @ evs = ev # post) \<or> (t @ us = pre \<and> evs = us @ ev # post)"
    by (auto simp: append_eq_append_conv2)
  then have "\<exists>post'. t = pre @ ev # post'"
  proof
    assume a: "t = pre @ us \<and> us @ evs = ev # post"
    show ?thesis
    proof (cases us)
      case Nil
      with a have "ev \<in> set evs" by simp
      with assms(2) h show ?thesis by blast
    next
      case (Cons u us')
      with a show ?thesis by simp
    qed
  next
    assume "t @ us = pre \<and> evs = us @ ev # post"
    then have "ev \<in> set evs" by simp
    with assms(2) h show ?thesis by blast
  qed
  then obtain post' where "t = pre @ ev # post'" by blast
  with assms(1) h
  show "\<exists>pre' p b. pre = pre' @ [PrintPrec p b] \<and> 90 < p \<and> (\<forall>q \<in> set (precisions pre'). q < p)"
    unfolding saves_justified_def by blast
qed

lemma saves_justified_append_save:
  assumes "saves_justified t" and "\<forall>q \<in> set (precisions t). q < p" and "90 < p"
  shows "saves_justified (t @ [PrintPrec p b, sv])"
  unfolding saves_justified_def
proof (intro allI impI)
  fix pre ev post
  assume h: "t @ [PrintPrec p b, sv] = pre @ ev # post \<and> is_save ev"
  have eq: "(t @ [PrintPrec p b]) @ [sv] = pre @ ev # post" using h by simp
  show "\<exists>pre' p b. pre = pre' @ [PrintPrec p b] \<and> 90 < p \<and> (\<forall>q \<in> set (precisions pre'). q < p)"
  proof (cases post rule: rev_cases)
    case Nil
    with eq have "pre = t @ [PrintPrec p b]" by simp
    with assms(2,3) show ?thesis by blast
  next
    case (snoc post' x)
    with eq have "t @ [PrintPrec p b] = pre @ ev # post'" by simp
    moreover have "saves_justified (t @ [PrintPrec p b])"
      by (rule saves_justified_append_quiet [OF assms(1)]) simp
    ultimately show ?thesis using h unfolding saves_justified_def by blast
  qed
qed

lemma quiet_train_batches:
  "\<forall>ev \<in> set (map (\<lambda>i. TrainBatch ep i M) js). \<not> is_save ev"
  by (induction js) simp_all

lemma quiet_eval_batches:
  "\<forall>ev \<in> set (map (\<lambda>i. EvalBatch i M) js). \<not> is_save ev"
  by (induction js) simp_all

lemma train_quiet:
  "\<exists>evs. trace_of (train env ep w) = trace w @ evs
     \<and> precisions evs = [] \<and> (\<forall>ev \<in> set evs. \<not> is_save ev)
     \<and> (\<forall>u w'. train env ep w = Returned u w' \<longrightarrow> best_prec1 w' = best_prec1 w \<and> wargs w' = wargs w)"
proof -
  define M where "M = modules (set_fix_method FIX_AUTO [] (model w))"
  from train_out [of env ep w, folded M_def] obtain k where
    t: "trace_of (train env ep w)
       = trace w @ SetFixMethod FIX_AUTO [] # ModelTrain # map (\<lambda>i. TrainBatch ep i M) [0..<k]"
    and rf: "\<forall>u w'. train env ep w = Returned u w' \<longrightarrow>
           k = len_train_loader env
           \<and> wargs w' = wargs w \<and> optimizer w' = optimizer w \<and> best_prec1 w' = best_prec1 w
           \<and> cfg (model w') = cfg (model w) \<and> modules (model w') = M"
    by (elim exE conjE)
  let ?evs = "SetFixMethod FIX_AUTO [] # ModelTrain # map (\<lambda>i. TrainBatch ep i M) [0..<k]"
  have a: "precisions ?evs = []" by (simp add: precisions_train_batches)
  have b: "\<forall>ev \<in> set ?evs. \<not> is_save ev"
    using quiet_train_batches [of ep M "[0..<k]"] by simp
  have c: "\<forall>u w'. train env ep w = Returned u w' \<longrightarrow>
      best_prec1 w' = best_prec1 w \<and> wargs w' = wargs w"
  proof (intro allI impI)
    fix u w' assume "train env ep w = Returned u w'"
    with rf show "best_prec1 w' = best_prec1 w \<and> wargs w' = wargs w" by simp
  qed
  from t a b c show ?thesis by (intro exI [of _ ?evs] conjI)
qed

lemma validate_quiet:
  "\<exists>evs. (\<forall>ev \<in> set evs. \<not> is_save ev) \<and> precisions evs = []
     \<and> (\<forall>e t. validate env w = Raised e t \<longrightarrow> t = trace w @ evs)
     \<and> (\<forall>p w'. validate env w = Returned p w' \<longrightarrow>
           trace w' = trace w @ evs @ [PrintPrec p (best_prec1 w)]
           \<and> best_prec1 w' = best_prec1 w \<and> wargs w' = wargs w)"
proof -
  define M where "M = modules (set_fix_method FIX_FIXED [] (model w))"
  from validate_out [of env w, folded M_def] obtain k tail where
    t: "trace_of (validate env w)
        = trace w @ SetFixMethod FIX_FIXED [] # ModelEval # map (\<lambda>i. EvalBatch i M) [0..<k] @ tail" and
    r1: "\<forall>e t. validate env w = Raised e t \<longrightarrow> tail = []" and
    r2f: "\<forall>p w'. validate env w = Returned p w' \<longrightarrow>
           k = len_val_loader env \<and> tail = [PrintPrec p (best_prec1 w)]
           \<and> wargs w' = wargs w \<and> optimizer w' = optimizer w \<and> best_prec1 w' = best_prec1 w
           \<and> cfg (model w') = cfg (model w) \<and> modules (model w') = M"
    by (elim exE conjE)
  let ?evs = "SetFixMethod FIX_FIXED [] # ModelEval # map (\<lambda>i. EvalBatch i M) [0..<k]"
  have a: "precisions ?evs = []" by (simp add: precisions_eval_batches)
  have b: "\<forall>ev \<in> set ?evs. \<not> is_save ev"
    using quiet_eval_batches [of M "[0..<k]"] by simp
  have c: "\<forall>e t'. validate env w = Raised e t' \<longrightarrow> t' = trace w @ ?evs"
  proof (intro allI impI)
    fix e t' assume v: "validate env w = Raised e t'"
    with r1 have "tail = []" by blast
    with t v show "t' = trace w @ ?evs" by simp
  qed
  have d: "\<forall>p w'. validate env w = Returned p w' \<longrightarrow>
           trace w' = trace w @ ?evs @ [PrintPrec p (best_prec1 w)]
           \<and> best_prec1 w' = best_prec1 w \<and> wargs w' = wargs w"
  proof (intro allI impI)
    fix p w' assume v: "validate env w = Returned p w'"
    with r2f have "tail = [PrintPrec p (best_prec1 w)]" "best_prec1 w' = best_prec1 w"
      "wargs w' = wargs w" by simp_all
    with t v show "trace w' = trace w @ ?evs @ [PrintPrec p (best_prec1 w)]
           \<and> best_prec1 w' = best_prec1 w \<and> wargs w' = wargs w" by simp
  qed
  from a b c d show ?thesis by (intro exI [of _ ?evs] conjI)
qed

lemma main_epoch_train_Raised:
  "train env ep (w\<lparr>optimizer := adjust_learning_rate (lr (wargs w)) (optimizer w) ep\<rparr>) = Raised e t
     \<Longrightarrow> main_epoch env ep w = Raised e t"
  by (simp add: main_epoch_def Let_def)

lemma main_epoch_validate_Raised:
  "train env ep (w\<lparr>optimizer := adjust_learning_rate (lr (wargs w)) (optimizer w) ep\<rparr>) = Returned u w2
     \<Longrightarrow> validate env w2 = Raised e t \<Longrightarrow> main_epoch env ep w = Raised e t"
  by (simp add: main_epoch_def Let_def)

lemma main_epoch_save:
  "train env ep (w\<lparr>optimizer := adjust_learning_rate (lr (wargs w)) (optimizer w) ep\<rparr>) = Returned u w2
     \<Longrightarrow> validate env w2 = Returned p w3 \<Longrightarrow> 90 < p \<Longrightarrow> best_prec1 w3 < p
     \<Longrightarrow> main_epoch env ep w =
          Returned ()
            (w3\<lparr>best_prec1 := p,
                trace := trace w3 @
                  [TorchSave (checkpoint_filename env (wargs w3) p)
                     \<lparr>ck_epoch = Some (ep + 1), ck_state_dict = Some (state_dict (model w3)),
                      ck_best_prec1 = Some p\<rparr>]\<rparr>)"
  by (simp add: main_epoch_def Let_def save_checkpoint_def max_def)

lemma main_epoch_nosave:
  "train env ep (w\<lparr>optimizer := adjust_learning_rate (lr (wargs w)) (optimizer w) ep\<rparr>) = Returned u w2
     \<Longrightarrow> validate env w2 = Returned p w3 \<Longrightarrow> \<not> (90 < p \<and> best_prec1 w3 < p)
     \<Longrightarrow> main_epoch env ep w = Returned () (w3\<lparr>best_prec1 := max p (best_prec1 w3)\<rparr>)"
  by (auto simp: main_epoch_def Let_def max_def)

lemma main_epoch_inv:
  assumes sj: "saves_justified (trace w)"
    and le: "\<forall>q \<in> set (precisions (trace w)). q \<le> best_prec1 w"
  shows "saves_justified (trace_of (main_epoch env ep w))
     \<and> (\<forall>u w'. main_epoch env ep w = Returned u w' \<longrightarrow>
           (\<forall>q \<in> set (precisions (trace w')). q \<le> best_prec1 w'))"
proof -
  define w1 where "w1 = w\<lparr>optimizer := adjust_learning_rate (lr (wargs w)) (optimizer w) ep\<rparr>"
  have w1: "trace w1 = trace w" "best_prec1 w1 = best_prec1 w" by (simp_all add: w1_def)
  from train_quiet [of env ep w1] obtain E1 where
    t1': "trace_of (train env ep w1) = trace w1 @ E1" and
    q1: "precisions E1 = []" "\<forall>ev \<in> set E1. \<not> is_save ev" and
    r1': "\<forall>u w'. train env ep w1 = Returned u w' \<longrightarrow>
            best_prec1 w' = best_prec1 w1 \<and> wargs w' = wargs w1"
    by (elim exE conjE)
  from t1' have t1: "trace_of (train env ep w1) = trace w @ E1" by (simp only: w1)
  show ?thesis
  proof (cases "train env ep w1")
    case (Raised e t)
    with t1 have t: "t = trace w @ E1" by simp
    from Raised have "main_epoch env ep w = Raised e t"
      unfolding w1_def by (rule main_epoch_train_Raised)
    then show ?thesis using saves_justified_append_quiet [OF sj q1(2)] t by simp
  next
    case T: (Returned u w2)
    from T t1 have tw2: "trace w2 = trace w @ E1" by simp
    from T r1' have bw2: "best_prec1 w2 = best_prec1 w" by (simp add: w1)
    from validate_quiet [of env w2] obtain E2 where
      q2: "\<forall>ev \<in> set E2. \<not> is_save ev" "precisions E2 = []" and
      v1: "\<forall>e t. validate env w2 = Raised e t \<longrightarrow> t = trace w2 @ E2" and
      v2: "\<forall>p w'. validate env w2 = Returned p w' \<longrightarrow>
           trace w' = trace w2 @ E2 @ [PrintPrec p (best_prec1 w2)]
           \<and> best_prec1 w' = best_prec1 w2 \<and> wargs w' = wargs w2"
      by (elim exE conjE)
    define t0 where "t0 = trace w @ E1 @ E2"
    have q12: "\<forall>ev \<in> set (E1 @ E2). \<not> is_save ev" using q1(2) q2(1) by auto
    have sj0: "saves_justified t0"
      unfolding t0_def by (rule saves_justified_append_quiet [OF sj q12])
    have p0: "precisions t0 = precisions (trace w)"
      by (simp add: t0_def precisions_append q1(1) q2(2))
    show ?thesis
    proof (cases "validate env w2")
      case (Raised e t)
      with v1 have "t = trace w2 @ E2" by blast
      then have t: "t = t0" by (simp add: tw2 t0_def)
      from T Raised have "main_epoch env ep w = Raised e t"
        unfolding w1_def by (rule main_epoch_validate_Raised)
      then show ?thesis using sj0 t by simp
    next
      case V: (Returned p w3)
      with v2 have "trace w3 = trace w2 @ E2 @ [PrintPrec p (best_prec1 w2)]"
        and bw3': "best_prec1 w3 = best_prec1 w2" by blast+
      then have tw3: "trace w3 = t0 @ [PrintPrec p (best_prec1 w)]"
        by (simp add: tw2 bw2 t0_def)
      from bw3' bw2 have bw3: "best_prec1 w3 = best_prec1 w" by simp
      have p3: "precisions (trace w3) = precisions (trace w) @ [p]"
        by (simp add: tw3 precisions_append p0)
      show ?thesis
      proof (cases "90 < p \<and> best_prec1 w < p")
        case True
        then have p90: "90 < p" and pb: "best_prec1 w < p" by simp_all
        define sv where "sv = TorchSave (checkpoint_filename env (wargs w3) p)
                     \<lparr>ck_epoch = Some (ep + 1), ck_state_dict = Some (state_dict (model w3)),
                      ck_best_prec1 = Some p\<rparr>"
        define w' where "w' = w3\<lparr>best_prec1 := p, trace := trace w3 @ [sv]\<rparr>"
        from pb bw3 have "best_prec1 w3 < p" by simp
        from main_epoch_save [OF T [unfolded w1_def] V p90 this]
        have m: "main_epoch env ep w = Returned () w'" by (simp add: w'_def sv_def)
        have tw': "trace w' = t0 @ [PrintPrec p (best_prec1 w), sv]"
          by (simp add: w'_def tw3)
        have lt: "\<forall>q \<in> set (precisions t0). q < p"
        proof
          fix q assume "q \<in> set (precisions t0)"
          with p0 le have "q \<le> best_prec1 w" by simp
          with pb show "q < p" by simp
        qed
        have A: "saves_justified (trace w')"
          unfolding tw' by (rule saves_justified_append_save [OF sj0 lt p90])
        have pw': "precisions (trace w') = precisions (trace w) @ [p]"
          by (simp add: tw' precisions_append p0 sv_def)
        have B: "\<forall>q \<in> set (precisions (trace w')). q \<le> best_prec1 w'"
        proof
          fix q assume "q \<in> set (precisions (trace w'))"
          then have "q \<in> set (precisions (trace w)) \<or> q = p" by (auto simp: pw')
          then show "q \<le> best_prec1 w'"
          proof
            assume "q \<in> set (precisions (trace w))"
            with le pb show ?thesis by (simp add: w'_def) (meson less_eq_real_def order_trans)
          next
            assume "q = p"
            then show ?thesis by (simp add: w'_def)
          qed
        qed
        from A B m show ?thesis by simp
      next
        case False
        define w' where "w' = w3\<lparr>best_prec1 := max p (best_prec1 w3)\<rparr>"
        from False bw3 have "\<not> (90 < p \<and> best_prec1 w3 < p)" by simp
        from main_epoch_nosave [OF T [unfolded w1_def] V this]
        have m: "main_epoch env ep w = Returned () w'" by (simp add: w'_def)
        have tw': "trace w' = trace w @ ((E1 @ E2) @ [PrintPrec p (best_prec1 w)])"
          by (simp add: w'_def tw3 t0_def)
        have "\<forall>ev \<in> set ((E1 @ E2) @ [PrintPrec p (best_prec1 w)]). \<not> is_save ev"
          using q12 by auto
        from saves_justified_append_quiet [OF sj this]
        have A: "saves_justified (trace w')" by (simp only: tw')
        have pw': "precisions (trace w') = precisions (trace w) @ [p]"
          by (simp add: w'_def p3)
        have B: "\<forall>q \<in> set (precisions (trace w')). q \<le> best_prec1 w'"
        proof
          fix q assume "q \<in> set (precisions (trace w'))"
          then have "q \<in> set (precisions (trace w)) \<or> q = p" by (auto simp: pw')
          then show "q \<le> best_prec1 w'"
          proof
            assume "q \<in> set (precisions (trace w))"
            with le have "q \<le> best_prec1 w" by simp
            then show ?thesis by (simp add: w'_def bw3 max_def)
          next
            assume "q = p"
            then show ?thesis by (simp add: w'_def)
          qed
        qed
        from A B m show ?thesis by simp
      qed
    qed
  qed
qed

lemma main_epochs_inv:
  assumes "saves_justified (trace w)"
    and "\<forall>q \<in> set (precisions (trace w)). q \<le> best_prec1 w"
  shows "saves_justified (trace_of (main_epochs env eps w))"
  using assms
proof (induction eps arbitrary: w)
  case Nil
  then show ?case by simp
next
  case (Cons ep eps)
  from main_epoch_inv [OF Cons.prems, of env ep]
  have a: "saves_justified (trace_of (main_epoch env ep w))"
    and b: "\<forall>u w'. main_epoch env ep w = Returned u w' \<longrightarrow>
           (\<forall>q \<in> set (precisions (trace w')). q \<le> best_prec1 w')" by simp_all
  show ?case
  proof (cases "main_epoch env ep w")
    case (Raised e t)
    with a show ?thesis by simp
  next
    case (Returned u w')
    with a have "saves_justified (trace w')" by simp
    moreover from b Returned have "\<forall>q \<in> set (precisions (trace w')). q \<le> best_prec1 w'"
      by blast
    ultimately have "saves_justified (trace_of (main_epochs env eps w'))" by (rule Cons.IH)
    with Returned show ?thesis by simp
  qed
qed

lemma main_saves_justified: "saves_justified (trace_of (main env argv))"
proof (cases "parse_args (bi env) argv")
  case (Inl e)
  then have "trace_of (main env argv) = []" by (simp add: main_def)
  then show ?thesis by (simp add: saves_justified_quiet)
next
  case (Inr a)
  show ?thesis
  proof (cases "main_setup env a")
    case (Raised e t)
    with main_setup_trace [of env a] have "\<forall>ev \<in> set t. startup_event env ev" by simp
    from startup_quiet [OF this] have "saves_justified t" by (simp add: saves_justified_quiet)
    moreover from Inr Raised have "trace_of (main env argv) = t" by (simp add: main_def)
    ultimately show ?thesis by simp
  next
    case (Returned u w)
    define w1 where "w1 = w\<lparr>optimizer :=
                      [Map.empty(''lr'' \<mapsto> lr (wargs w), ''momentum'' \<mapsto> momentum (wargs w),
                        ''weight_decay'' \<mapsto> weight_decay (wargs w))]\<rparr>"
    have tw1: "trace w1 = trace w" and aw1: "wargs w1 = wargs w" by (simp_all add: w1_def)
    from Returned main_setup_trace [of env a] have "\<forall>ev \<in> set (trace w). startup_event env ev"
      by simp
    from startup_quiet [OF this] have q: "precisions (trace w1) = []"
      "\<forall>ev \<in> set (trace w1). \<not> is_save ev" by (simp_all add: tw1)
    from q(2) have sj: "saves_justified (trace w1)" by (rule saves_justified_quiet)
    have m: "main env argv =
        (if evaluate (wargs w1)
             then (case validate env w1 of
                     Raised e t \<Rightarrow> Raised e t
                   | Returned p w2 \<Rightarrow> Returned () w2)
             else main_epochs env [start_epoch (wargs w1) .. epoch (wargs w1) - 1] w1)"
      using Inr Returned by (simp add: main_def Let_def w1_def)
    show ?thesis
    proof (cases "evaluate (wargs w1)")
      case True
      from validate_quiet [of env w1] obtain E where
        qE: "\<forall>ev \<in> set E. \<not> is_save ev" and
        v1: "\<forall>e t. validate env w1 = Raised e t \<longrightarrow> t = trace w1 @ E" and
        v2: "\<forall>p w'. validate env w1 = Returned p w' \<longrightarrow>
           trace w' = trace w1 @ E @ [PrintPrec p (best_prec1 w1)]
           \<and> best_prec1 w' = best_prec1 w1 \<and> wargs w' = wargs w1"
        by (elim exE conjE)
      show ?thesis
      proof (cases "validate env w1")
        case (Raised e t)
        with v1 have "t = trace w1 @ E" by blast
        moreover from m True Raised have "trace_of (main env argv) = t" by simp
        ultimately show ?thesis using saves_justified_append_quiet [OF sj qE] by simp
      next
        case (Returned p w2)
        with v2 have "trace w2 = trace w1 @ (E @ [PrintPrec p (best_prec1 w1)])" by simp
        moreover from m True Returned have "trace_of (main env argv) = trace w2" by simp
        moreover have "\<forall>ev \<in> set (E @ [PrintPrec p (best_prec1 w1)]). \<not> is_save ev"
          using qE by auto
        ultimately show ?thesis using saves_justified_append_quiet [OF sj] by simp
      qed
    next
      case False
      have "\<forall>q \<in> set (precisions (trace w1)). q \<le> best_prec1 w1" by (simp add: q(1))
      from main_epochs_inv [OF sj this] m False show ?thesis by simp
    qed
  qed
qed

text \<open>
  Claim C8. In the trace of any run of \<open>main\<close>, every write of a checkpoint file comes
  right after the summary line of the validation that precedes it, and the precision
  that line reports strictly exceeds 90 and every validation precision reported earlier
  in the run. A run none of whose validation precisions exceeds 90 writes no checkpoint.
\<close>

theorem checkpoint_only_on_new_best:
  "(\<forall>pre ev post. trace_of (main env argv) = pre @ ev # post \<and> is_save ev \<longrightarrow>
       (\<exists>pre' p b. pre = pre' @ [PrintPrec p b] \<and> 90 < p
           \<and> (\<forall>q \<in> set (precisions pre'). q < p)))
   \<and> ((\<forall>q \<in> set (precisions (trace_of (main env argv))). q \<le> 90) \<longrightarrow>
        (\<forall>ev \<in> set (trace_of (main env argv)). \<not> is_save ev))"
proof (intro conjI)
  from main_saves_justified [of env argv]
  show A: "\<forall>pre ev post. trace_of (main env argv) = pre @ ev # post \<and> is_save ev \<longrightarrow>
       (\<exists>pre' p b. pre = pre' @ [PrintPrec p b] \<and> 90 < p
           \<and> (\<forall>q \<in> set (precisions pre'). q < p))"
    unfolding saves_justified_def .
  show "(\<forall>q \<in> set (precisions (trace_of (main env argv))). q \<le> 90) \<longrightarrow>
        (\<forall>ev \<in> set (trace_of (main env argv)). \<not> is_save ev)"
  proof (intro impI ballI notI)
    fix ev
    assume le: "\<forall>q \<in> set (precisions (trace_of (main env argv))). q \<le> 90"
      and ev: "ev \<in> set (trace_of (main env argv))" and sv: "is_save ev"
    from ev obtain pre post where d: "trace_of (main env argv) = pre @ ev # post"
      by (auto dest: split_list)
    with A sv obtain pre' p b where p: "pre = pre' @ [PrintPrec p b]" "90 < p" by blast
    have "p \<in> set (precisions (trace_of (main env argv)))"
      unfolding d p(1) by (simp add: precisions_append)
    with le p(2) show False by auto
  qed
qed

lemmas main_defs =
  main_def parse_args_def int_arg_def main_setup_def FixNet_def main_resume_def
  main_pretrained_def main_epoch_def save_checkpoint_def checkpoint_filename_def path_join_def
  state_dict_def adjust_learning_rate_def example_builtins_def example_net_def

lemma example_run_last:
  "trace_of (main example_env [Opt_save_dir ''out'', Opt_epoch ''1'']) \<noteq> []
   \<and> last (trace_of (main example_env [Opt_save_dir ''out'', Opt_epoch ''1'']))
       = TorchSave ''out/checkpoint__95.000.tar''
           \<lparr>ck_epoch = Some 1, ck_state_dict = Some [(''conv.weight'', [1 / 2])],
            ck_best_prec1 = Some 95\<rparr>"
  by (simp add: main_defs run_defs)

theorem checkpoint_only_on_new_best_witness:
  "is_save (last (trace_of (main example_env [Opt_save_dir ''out'', Opt_epoch ''1''])))
   \<and> (\<exists>pre' p b.
         butlast (trace_of (main example_env [Opt_save_dir ''out'', Opt_epoch ''1'']))
           = pre' @ [PrintPrec p b]
         \<and> 90 < p \<and> (\<forall>q \<in> set (precisions pre'). q < p))"
proof -
  let ?t = "trace_of (main example_env [Opt_save_dir ''out'', Opt_epoch ''1''])"
  from example_run_last have ne: "?t \<noteq> []" and s: "is_save (last ?t)" by simp_all
  from ne have d: "?t = butlast ?t @ last ?t # []" by simp
  from checkpoint_only_on_new_best [of example_env "[Opt_save_dir ''out'', Opt_epoch ''1'']",
      THEN conjunct1, rule_format, OF conjI [OF d s]] s
  show ?thesis by blast
qed

end
